theory Spec2Isabelle
  imports Main "HOL-Library.Sublist" "HOL-Library.Multiset"
begin

section \<open>Python strings and the operations of \<^verbatim>\<open>irida.py\<close> on them\<close>

text \<open>
  File names, project names and manifest text are \<^typ>\<open>string\<close>s; one \<^typ>\<open>char\<close> stands
  for one character of the Python \<^verbatim>\<open>str\<close>. Characters outside ASCII are ordinary
  characters here: neither digits nor white space.
\<close>

datatype py_error =
    InvalidFileName string   \<comment> \<open>\<^verbatim>\<open>ValueError(f"Invalid file name: {name}")\<close>, line 201\<close>
  | InvalidLiteral string    \<comment> \<open>\<^verbatim>\<open>ValueError\<close> of \<^verbatim>\<open>int(token)\<close>, line 183\<close>
  | IndexError               \<comment> \<open>\<^verbatim>\<open>p.parts[-1]\<close> on a path without parts, line 161\<close>
  | KeyError string          \<comment> \<open>a missing key of the create response, lines 115-116\<close>
  | ExternalError string     \<comment> \<open>any exception of a collaborator (API, file system)\<close>

definition newline :: char where
  "newline = CHR 0x0A"

text \<open>\<^verbatim>\<open>old in s\<close> for a non-empty \<^verbatim>\<open>old\<close>: some suffix of \<open>s\<close> starts with \<open>old\<close>.\<close>

fun py_in :: "string \<Rightarrow> string \<Rightarrow> bool" where
  "py_in old [] = (old = [])"
| "py_in old (c # cs) = (prefix old (c # cs) \<or> py_in old cs)"

text \<open>
  \<^verbatim>\<open>s.replace(old, new)\<close>: every non-overlapping occurrence, from the left. With an empty
  \<^verbatim>\<open>old\<close> Python puts \<^verbatim>\<open>new\<close> before every character and at the end.
\<close>

fun replace_from :: "string \<Rightarrow> string \<Rightarrow> string \<Rightarrow> string" where
  "replace_from old new [] = []"
| "replace_from old new (c # cs) =
     (if prefix old (c # cs) then new @ replace_from old new (drop (length old - 1) cs)
      else c # replace_from old new cs)"

definition py_replace :: "string \<Rightarrow> string \<Rightarrow> string \<Rightarrow> string" where
  "py_replace old new s =
     (if old = [] then new @ concat (map (\<lambda>c. c # new) s) else replace_from old new s)"

text \<open>\<^verbatim>\<open>s.split(sep)\<close> for a one-character separator; the result is never empty.\<close>

fun py_split :: "char \<Rightarrow> string \<Rightarrow> string list" where
  "py_split sep [] = [[]]"
| "py_split sep (c # cs) =
     (if c = sep then [] # py_split sep cs
      else (case py_split sep cs of
              [] \<Rightarrow> [[c]]
            | t # ts \<Rightarrow> (c # t) # ts))"

subsection \<open>\<^verbatim>\<open>int(token)\<close>\<close>

text \<open>
  \<^verbatim>\<open>int\<close> skips the white space of C (tab to carriage return, and the blank) on both
  sides, reads one optional sign, and wants a literal body after it. Leading zeros are
  accepted. (The limit of 4300 digits is beyond any file name and is left out.)
\<close>

definition py_isspace :: "char \<Rightarrow> bool" where
  "py_isspace c \<longleftrightarrow>
     c \<in> set [CHR 0x09, CHR 0x0A, CHR 0x0B, CHR 0x0C, CHR 0x0D, CHR 0x20]"

definition py_strip :: "string \<Rightarrow> string" where
  "py_strip s = rev (dropWhile py_isspace (rev (dropWhile py_isspace s)))"

definition digits :: string where
  "digits = ''0123456789''"

definition is_digit :: "char \<Rightarrow> bool" where
  "is_digit c \<longleftrightarrow> c \<in> set digits"

text \<open>The value of a digit character: its code minus the code of \<^verbatim>\<open>0\<close>.\<close>

fun digit_val :: "char \<Rightarrow> nat" where
  "digit_val c = of_char c - 48"

text \<open>The value of a digit string, most significant digit first.\<close>

definition digits_val :: "string \<Rightarrow> nat" where
  "digits_val ds = foldl (\<lambda>acc c. 10 * acc + digit_val c) 0 ds"

text \<open>
  The body of an integer literal: digits, with single underscores allowed between two
  digits only. The flag says that the character before was a digit.
\<close>

fun int_body :: "bool \<Rightarrow> string \<Rightarrow> bool" where
  "int_body after_digit [] = after_digit"
| "int_body after_digit (c # r) =
     (if is_digit c then int_body True r
      else c = CHR ''_'' \<and> after_digit \<and> r \<noteq> [] \<and> is_digit (hd r) \<and> int_body False r)"

definition py_int :: "string \<Rightarrow> py_error + int" where
  "py_int s =
     (let t = py_strip s;
          neg = (t \<noteq> [] \<and> hd t = CHR ''-'');
          body = (if t \<noteq> [] \<and> (hd t = CHR ''-'' \<or> hd t = CHR ''+'') then tl t else t)
      in if int_body False body
         then Inr ((if neg then - 1 else 1) * int (digits_val (filter is_digit body)))
         else Inl (InvalidLiteral s))"

section \<open>The compiled patterns\<close>

text \<open>
  Every alternative of the three patterns of the source is a sequence of one-character
  items. \<^verbatim>\<open>.\<close> is any character but a newline; \<^verbatim>\<open>[0-9]\<close> and \<^verbatim>\<open>[12]\<close> are
  character classes. Only the position where the leftmost match starts is ever used
  (\<^verbatim>\<open>regex.split(s)[0]\<close>, \<^verbatim>\<open>re.search(..).group()\<close> of a fixed-width pattern), and
  \<^verbatim>\<open>_S[0-9]{1,3}\<close> starts a match exactly where \<^verbatim>\<open>_S[0-9]\<close> does, so the bounded
  repetition is written with its first digit only.
\<close>

datatype atom = Lit char | Dot | OneOf string

fun atom_ok :: "atom \<Rightarrow> char \<Rightarrow> bool" where
  "atom_ok (Lit a) c = (c = a)"
| "atom_ok Dot c = (c \<noteq> newline)"
| "atom_ok (OneOf cs) c = (c \<in> set cs)"

fun match_seq :: "atom list \<Rightarrow> string \<Rightarrow> bool" where
  "match_seq [] s = True"
| "match_seq (a # as) [] = False"
| "match_seq (a # as) (c # cs) = (atom_ok a c \<and> match_seq as cs)"

type_synonym regex = "atom list list"

definition match_here :: "regex \<Rightarrow> string \<Rightarrow> bool" where
  "match_here re s = list_ex (\<lambda>alt. match_seq alt s) re"

definition lits :: "string \<Rightarrow> atom list" where
  "lits s = map Lit s"

text \<open>\<^verbatim>\<open>"_S[0-9]{1,3}|_R[12].|_1.non_host.fastq.gz|_2.non_host.fastq.gz"\<close>, line 169.\<close>

definition pe_regex :: regex where
  "pe_regex =
     [lits ''_S'' @ [OneOf digits],
      lits ''_R'' @ [OneOf ''12'', Dot],
      lits ''_1'' @ [Dot] @ lits ''non_host'' @ [Dot] @ lits ''fastq'' @ [Dot] @ lits ''gz'',
      lits ''_2'' @ [Dot] @ lits ''non_host'' @ [Dot] @ lits ''fastq'' @ [Dot] @ lits ''gz'']"

text \<open>\<^verbatim>\<open>".fastq|.fq."\<close>, line 172.\<close>

definition se_regex :: regex where
  "se_regex = [[Dot] @ lits ''fastq'', [Dot] @ lits ''fq'' @ [Dot]]"

text \<open>\<^verbatim>\<open>"[0-9]{6}(?=\_NB)"\<close>, line 154: six digits with \<^verbatim>\<open>_NB\<close> right after them.\<close>

definition run_date_regex :: regex where
  "run_date_regex = [replicate 6 (OneOf digits) @ lits ''_NB'']"

text \<open>
  \<^verbatim>\<open>regex.split(s)[0]\<close>: the part of \<open>s\<close> before the leftmost match, all of \<open>s\<close> when
  nothing matches. No alternative matches the empty string.
\<close>

fun split0 :: "regex \<Rightarrow> string \<Rightarrow> string" where
  "split0 re [] = []"
| "split0 re (c # cs) = (if match_here re (c # cs) then [] else c # split0 re cs)"

text \<open>\<^verbatim>\<open>re.search(pattern, s)\<close>: the rest of \<open>s\<close> from the leftmost match on.\<close>

fun re_search :: "regex \<Rightarrow> string \<Rightarrow> string option" where
  "re_search re [] = None"
| "re_search re (c # cs) = (if match_here re (c # cs) then Some (c # cs) else re_search re cs)"

section \<open>Pairing a forward file with its reverse file\<close>

text \<open>Lines 193-203 of \<^verbatim>\<open>prepare\<close>: the value of \<^verbatim>\<open>reverse_reads\<close> for one file name.\<close>

definition reverse_reads :: "bool \<Rightarrow> string \<Rightarrow> py_error + string" where
  "reverse_reads pe name =
     (if pe then
        if py_in ''_R1_'' name then Inr (py_replace ''_R1_'' ''_R2_'' name)
        else if py_in ''_R1.non_host.fastq.gz'' name
        then Inr (py_replace ''_R1.non_host.fastq.gz'' ''_R2.non_host.fastq.gz'' name)
        else Inl (InvalidFileName name)
      else Inr [])"

section \<open>Identifiers, dates and paths\<close>

text \<open>
  A project identifier is opaque to \<^verbatim>\<open>irida.py\<close>: the \<^verbatim>\<open>--pid\<close> option is a string, the
  remote API hands out strings or integers. The manifest holds \<^verbatim>\<open>f"{pid}"\<close>, that is
  \<^verbatim>\<open>str(pid)\<close>.
\<close>

datatype ident = IdStr string | IdInt int

definition digit_char :: "nat \<Rightarrow> char" where
  "digit_char n = digits ! n"

fun show_nat :: "nat \<Rightarrow> string" where
  "show_nat n = (if n < 10 then [digit_char n] else show_nat (n div 10) @ [digit_char (n mod 10)])"

fun py_str :: "ident \<Rightarrow> string" where
  "py_str (IdStr s) = s"
| "py_str (IdInt i) = (if i < 0 then CHR ''-'' # show_nat (nat (- i)) else show_nat (nat i))"

record date =
  year :: nat
  month :: nat
  day :: nat

definition zpad :: "nat \<Rightarrow> string \<Rightarrow> string" where
  "zpad w s = replicate (w - length s) (CHR ''0'') @ s"

text \<open>\<^verbatim>\<open>str(date)\<close>, as in \<^verbatim>\<open>f"Created on {datetime.date.today()} by BOT"\<close>.\<close>

definition date_str :: "date \<Rightarrow> string" where
  "date_str d =
     zpad 4 (show_nat (year d)) @ ''-'' @ zpad 2 (show_nat (month d)) @ ''-''
       @ zpad 2 (show_nat (day d))"

text \<open>\<^verbatim>\<open>date.strftime("%y%m%d")\<close>.\<close>

definition strftime_ymd :: "date \<Rightarrow> string" where
  "strftime_ymd d =
     zpad 2 (show_nat (year d mod 100)) @ zpad 2 (show_nat (month d))
       @ zpad 2 (show_nat (day d))"

text \<open>
  \<^verbatim>\<open>pathlib.Path(path).parts\<close> on POSIX: the root (\<^verbatim>\<open>/\<close>, or \<^verbatim>\<open>//\<close> for exactly two
  leading slashes) and then the components, without the empty ones and the dots.
\<close>

definition path_parts :: "string \<Rightarrow> string list" where
  "path_parts path =
     (let comps = filter (\<lambda>c. c \<noteq> [] \<and> c \<noteq> ''.'') (py_split (CHR ''/'') path);
          root = (if prefix ''//'' path \<and> \<not> prefix ''///'' path then [''//'']
                  else if prefix ''/'' path then [''/'']
                  else [])
      in root @ comps)"

section \<open>The collaborators and the state they act on\<close>

text \<open>
  The remote platform, the file system and the clock are outside \<^verbatim>\<open>irida.py\<close>. The
  remote platform is a state of any type \<open>'r\<close>; the API object that
  \<^verbatim>\<open>initialize_irida_api\<close> returns acts on it. Every request the program issues is
  recorded in \<open>api_calls\<close>, every \<^verbatim>\<open>logging\<close> call in \<open>log\<close>. \<open>sample_list\<close> is the
  content of \<^verbatim>\<open>SampleList.csv\<close> in the target directory, \<open>None\<close> while the file does
  not exist. Standard output (\<^verbatim>\<open>print\<close>) is left out.
\<close>

record project =
  prj_id :: ident
  prj_name :: string

text \<open>The JSON of a create response, as far as it is read: \<^verbatim>\<open>r['resource']['identifier']\<close>.\<close>

type_synonym response = "(string \<times> (string \<times> ident) list) list"

text \<open>
  The object \<^verbatim>\<open>Project(name, project_description)\<close> of line 113. The class is
  \<^verbatim>\<open>iridauploader.model.Project\<close>, which is not part of the repository: the object is
  kept as the constructor applied to its two positional arguments, in the order of the
  call. What the library takes its second argument for, and what \<^verbatim>\<open>send_project\<close> makes
  of the object on the wire, is not stated anywhere in this theory.
\<close>

datatype new_project = Project string string

text \<open>A request to the remote API: the method called, with its argument.\<close>

datatype api_call = GetProjects | SendProject new_project

datatype log_level = INFO | WARNING

datatype log_msg = Text string | IdList "ident list"

record 'r api =
  get_projects :: "'r \<Rightarrow> (py_error + project list) \<times> 'r"
  send_project :: "new_project \<Rightarrow> 'r \<Rightarrow> (py_error + response) \<times> 'r"

record 'r world =
  remote :: 'r
  api_calls :: "api_call list"
  log :: "(log_level \<times> log_msg) list"
  sample_list :: "string option"

text \<open>
  What one invocation reads from its surroundings: the API object for a configuration
  file (or the exception of \<^verbatim>\<open>initialize_irida_api\<close>, whose prompts and temporary file
  are not followed), the date of today (one date for the whole run), the names that
  \<^verbatim>\<open>p.rglob(pattern)\<close> yields for a directory and a pattern, and the exception, if any, of
  opening \<^verbatim>\<open>SampleList.csv\<close> for writing. Once the file is open, writing to it succeeds.
\<close>

record 'r env =
  initialize_irida_api :: "string \<Rightarrow> py_error + 'r api"
  today :: date
  rglob :: "string \<Rightarrow> string \<Rightarrow> py_error + string list"
  open_error :: "py_error option"

definition logging :: "log_level \<Rightarrow> log_msg \<Rightarrow> 'r world \<Rightarrow> 'r world" where
  "logging lvl msg w = w\<lparr>log := log w @ [(lvl, msg)]\<rparr>"

text \<open>\<^verbatim>\<open>_api.get_projects()\<close>, line 110.\<close>

definition call_get_projects :: "'r api \<Rightarrow> 'r world \<Rightarrow> (py_error + project list) \<times> 'r world" where
  "call_get_projects a w =
     (case get_projects a (remote w) of
        (res, r) \<Rightarrow> (res, w\<lparr>remote := r, api_calls := api_calls w @ [GetProjects]\<rparr>))"

text \<open>\<^verbatim>\<open>_api.send_project(new_project)\<close>, line 114.\<close>

definition call_send_project ::
    "'r api \<Rightarrow> new_project \<Rightarrow> 'r world \<Rightarrow> (py_error + response) \<times> 'r world" where
  "call_send_project a new_project w =
     (case send_project a new_project (remote w) of
        (res, r) \<Rightarrow>
          (res, w\<lparr>remote := r, api_calls := api_calls w @ [SendProject new_project]\<rparr>))"

text \<open>\<^verbatim>\<open>created_project['resource']['identifier']\<close>.\<close>

definition resource_identifier :: "response \<Rightarrow> py_error + ident" where
  "resource_identifier created_project =
     (case map_of created_project ''resource'' of
        None \<Rightarrow> Inl (KeyError ''resource'')
      | Some resource \<Rightarrow>
          (case map_of resource ''identifier'' of
             None \<Rightarrow> Inl (KeyError ''identifier'')
           | Some i \<Rightarrow> Inr i))"

section \<open>\<^verbatim>\<open>create_project\<close>\<close>

definition create_project ::
    "'r env \<Rightarrow> string \<Rightarrow> string \<Rightarrow> string option \<Rightarrow> 'r world \<Rightarrow> (py_error + ident) \<times> 'r world" where
  "create_project env name config_file project_description w =
     (let description =
            (case project_description of
               None \<Rightarrow> ''Created on '' @ date_str (today env) @ '' by BOT''
             | Some d \<Rightarrow> d)
      in case initialize_irida_api env config_file of
           Inl e \<Rightarrow> (Inl e, w)
         | Inr a \<Rightarrow>
             (case call_get_projects a w of
                (Inl e, w1) \<Rightarrow> (Inl e, w1)
              | (Inr projects_list, w1) \<Rightarrow>
                  (let existed_project =
                         map prj_id (filter (\<lambda>prj. prj_name prj = name) projects_list)
                   in if length existed_project = 0 then
                        (case call_send_project a (Project name description) w1 of
                           (Inl e, w2) \<Rightarrow> (Inl e, w2)
                         | (Inr created_project, w2) \<Rightarrow>
                             (case resource_identifier created_project of
                                Inl e \<Rightarrow> (Inl e, w2)
                              | Inr project_id \<Rightarrow>
                                  (Inr project_id,
                                   logging INFO
                                     (Text (''Created project '' @ name @ '' - ''
                                              @ py_str project_id)) w2)))
                      else
                        (Inr (hd existed_project),
                         logging INFO (IdList existed_project)
                           (logging WARNING (Text (''Project(s) '' @ name @ '' is existed''))
                              w1)))))"

section \<open>\<^verbatim>\<open>prepare\<close>\<close>

subsection \<open>The project identifier (lines 152-166)\<close>

definition derive_project_name :: "'r env \<Rightarrow> string \<Rightarrow> py_error + string" where
  "derive_project_name env path =
     (let run_date =
            (case re_search run_date_regex path of
               Some m \<Rightarrow> take 6 m
             | None \<Rightarrow> strftime_ymd (today env))
      in case path_parts path of
           [] \<Rightarrow> Inl IndexError
         | p # ps \<Rightarrow>
             Inr (''QIB-'' @ py_replace ''_'' ''-'' (last (p # ps)) @ ''-'' @ run_date))"

definition resolve_pid ::
    "'r env \<Rightarrow> string \<Rightarrow> string option \<Rightarrow> string option \<Rightarrow> string \<Rightarrow> 'r world
       \<Rightarrow> (py_error + ident) \<times> 'r world" where
  "resolve_pid env path pid name config w =
     (case pid of
        Some i \<Rightarrow> (Inr (IdStr i), w)
      | None \<Rightarrow>
          (case name of
             None \<Rightarrow>
               (case derive_project_name env path of
                  Inl e \<Rightarrow> (Inl e, w)
                | Inr project_name \<Rightarrow>
                    create_project env project_name config None
                      (logging INFO (Text (''Project name is: '' @ project_name)) w))
           | Some project_name \<Rightarrow> create_project env project_name config None w))"

subsection \<open>Scanning and sorting (lines 167-186)\<close>

definition active_regex :: "bool \<Rightarrow> regex" where
  "active_regex pe = (if pe then pe_regex else se_regex)"

definition active_pattern :: "bool \<Rightarrow> string \<Rightarrow> string" where
  "active_pattern pe pattern = (if \<not> pe then ''*.fastq.gz'' else pattern)"

text \<open>The sort key of line 183: \<^verbatim>\<open>int(regex.split(s)[0].split("_")[-1])\<close>.\<close>

definition sort_key_of :: "regex \<Rightarrow> string \<Rightarrow> py_error + int" where
  "sort_key_of re s = py_int (last (py_split (CHR ''_'') (split0 re s)))"

text \<open>
  \<^verbatim>\<open>sorted\<close> computes the key of every element first, in order, and the first exception
  ends it; then it sorts by key, stably.
\<close>

fun keys_of :: "regex \<Rightarrow> string list \<Rightarrow> py_error + int list" where
  "keys_of re [] = Inr []"
| "keys_of re (s # ss) =
     (case sort_key_of re s of
        Inl e \<Rightarrow> Inl e
      | Inr k \<Rightarrow> (case keys_of re ss of Inl e \<Rightarrow> Inl e | Inr ks \<Rightarrow> Inr (k # ks)))"

definition py_sorted :: "regex \<Rightarrow> string list \<Rightarrow> py_error + string list" where
  "py_sorted re names =
     (case keys_of re names of
        Inl e \<Rightarrow> Inl e
      | Inr ks \<Rightarrow> Inr (map snd (sort_key fst (zip ks names))))"

definition sorted_fastq_names ::
    "'r env \<Rightarrow> string \<Rightarrow> string \<Rightarrow> bool \<Rightarrow> bool \<Rightarrow> py_error + string list" where
  "sorted_fastq_names env path pattern pe do_sort =
     (case rglob env path (active_pattern pe pattern) of
        Inl e \<Rightarrow> Inl e
      | Inr fastq_names \<Rightarrow>
          (if do_sort then py_sorted (active_regex pe) fastq_names else Inr fastq_names))"

subsection \<open>Writing the manifest (lines 187-206)\<close>

definition header :: string where
  "header = ''[Data]'' @ [newline]
              @ ''Sample_Name,Project_ID,File_Forward,File_Reverse'' @ [newline]"

text \<open>
  \<^verbatim>\<open>f"{sample_ids[i]}, {pid}, {_sorted_fastq_names[i]}, {reverse_reads}\\n"\<close> with \<open>pid\<close>
  already turned into text.
\<close>

definition row_text :: "string \<Rightarrow> string \<Rightarrow> string \<Rightarrow> string \<Rightarrow> string" where
  "row_text sample_id pid forward reverse =
     sample_id @ '', '' @ pid @ '', '' @ forward @ '', '' @ reverse @ [newline]"

text \<open>
  The loop of line 192 over the pairs of \<^verbatim>\<open>sample_ids[i]\<close> and
  \<^verbatim>\<open>_sorted_fastq_names[i]\<close>; \<open>fh\<close> is what has been written to the file so far. An
  exception leaves the loop with the text written before it.
\<close>

fun write_rows ::
    "bool \<Rightarrow> string \<Rightarrow> (string \<times> string) list \<Rightarrow> string \<Rightarrow> (py_error + unit) \<times> string" where
  "write_rows pe pid [] fh = (Inr (), fh)"
| "write_rows pe pid ((sample_id, name) # rest) fh =
     (case reverse_reads pe name of
        Inl e \<Rightarrow> (Inl e, fh)
      | Inr rv \<Rightarrow> write_rows pe pid rest (fh @ row_text sample_id pid name rv))"

definition prepare ::
    "'r env \<Rightarrow> string \<Rightarrow> string \<Rightarrow> string option \<Rightarrow> string option \<Rightarrow> bool \<Rightarrow> bool \<Rightarrow> string
       \<Rightarrow> 'r world \<Rightarrow> (py_error + unit) \<times> 'r world" where
  "prepare env path pattern pid name pe do_sort config w =
     (case resolve_pid env path pid name config w of
        (Inl e, w1) \<Rightarrow> (Inl e, w1)
      | (Inr i, w1) \<Rightarrow>
          (case sorted_fastq_names env path pattern pe do_sort of
             Inl e \<Rightarrow> (Inl e, w1)
           | Inr names \<Rightarrow>
               (let sample_ids = map (split0 (active_regex pe)) names
                in case open_error env of
                     Some e \<Rightarrow> (Inl e, w1)
                   | None \<Rightarrow>
                       (case write_rows pe (py_str i) (zip sample_ids names) header of
                          (res, fh) \<Rightarrow> (res, w1\<lparr>sample_list := Some fh\<rparr>)))))"

section \<open>The sample records of the specification\<close>

record sample_record =
  sample_id :: string
  project_id :: string
  forward_file :: string
  reverse_file :: string

definition manifest_row :: "sample_record \<Rightarrow> string" where
  "manifest_row r = row_text (sample_id r) (project_id r) (forward_file r) (reverse_file r)"

definition manifest_text :: "sample_record list \<Rightarrow> string" where
  "manifest_text recs = header @ concat (map manifest_row recs)"

text \<open>The record that \<^verbatim>\<open>prepare\<close> writes for one file name whose pairing succeeds.\<close>

definition record_of :: "bool \<Rightarrow> string \<Rightarrow> string \<Rightarrow> sample_record" where
  "record_of pe pid name =
     \<lparr>sample_id = split0 (active_regex pe) name,
      project_id = pid,
      forward_file = name,
      reverse_file = (case reverse_reads pe name of Inr rv \<Rightarrow> rv | Inl e \<Rightarrow> [])\<rparr>"

definition pairs_ok :: "bool \<Rightarrow> string \<Rightarrow> bool" where
  "pairs_ok pe name = (case reverse_reads pe name of Inr rv \<Rightarrow> True | Inl e \<Rightarrow> False)"

text \<open>The key of a name whose key is an integer (0 stands for the others).\<close>

definition key_val :: "regex \<Rightarrow> string \<Rightarrow> int" where
  "key_val re s = (case sort_key_of re s of Inr k \<Rightarrow> k | Inl e \<Rightarrow> 0)"

text \<open>
  How the loop of line 192 ends on a list of names, and the records it has written by
  then: those of the names before the first one that cannot be paired.
\<close>

definition pairing_result :: "bool \<Rightarrow> string list \<Rightarrow> py_error + unit" where
  "pairing_result pe names =
     (case dropWhile (pairs_ok pe) names of [] \<Rightarrow> Inr () | n # rest \<Rightarrow> Inl (InvalidFileName n))"

definition written_records :: "bool \<Rightarrow> string \<Rightarrow> string list \<Rightarrow> sample_record list" where
  "written_records pe pid names = map (record_of pe pid) (takeWhile (pairs_ok pe) names)"

text \<open>
  Modelled from the spec: the reader of the manifest. \<^verbatim>\<open>irida.py\<close> only writes
  \<^verbatim>\<open>SampleList.csv\<close>; the program that reads it back is not part of the repository.
  The reader follows the format of the specification: a section-marker line, a
  column-header line, then one row per line with four fields separated by a comma and a
  blank. \<open>split_str\<close> cuts a row at every separator, from the left.
\<close>

fun split_str :: "string \<Rightarrow> string \<Rightarrow> string list" where
  "split_str sep [] = [[]]"
| "split_str sep (c # cs) =
     (if prefix sep (c # cs) then [] # split_str sep (drop (length sep - 1) cs)
      else (case split_str sep cs of
              [] \<Rightarrow> [[c]]
            | t # ts \<Rightarrow> (c # t) # ts))"

text \<open>Modelled from the spec: a row of the manifest read back as a sample record.\<close>

definition parse_row :: "string \<Rightarrow> sample_record option" where
  "parse_row line =
     (case split_str '', '' line of
        [a, b, c, d] \<Rightarrow>
          Some \<lparr>sample_id = a, project_id = b, forward_file = c, reverse_file = d\<rparr>
      | _ \<Rightarrow> None)"

text \<open>
  Modelled from the spec: the manifest read back as its records; the text after the last
  newline is empty.
\<close>

definition parse_manifest :: "string \<Rightarrow> sample_record list option" where
  "parse_manifest text =
     (case py_split newline text of
        marker # columns # rest \<Rightarrow>
          (if marker = ''[Data]''
              \<and> columns = ''Sample_Name,Project_ID,File_Forward,File_Reverse''
              \<and> rest \<noteq> [] \<and> last rest = []
           then those (map parse_row (butlast rest))
           else None)
      | _ \<Rightarrow> None)"

text \<open>A row without its newline, and a field that holds neither the separator nor a newline.\<close>

definition row_body :: "sample_record \<Rightarrow> string" where
  "row_body r =
     sample_id r @ '', '' @ project_id r @ '', '' @ forward_file r @ '', '' @ reverse_file r"

definition clean :: "string \<Rightarrow> bool" where
  "clean f \<longleftrightarrow> \<not> py_in '', '' f \<and> newline \<notin> set f"

text \<open>
  A remote platform for concrete runs: the listing, and a counter for fresh identifiers.
  This platform names a new project by the first argument of \<^verbatim>\<open>Project\<close>.
\<close>

record demo_remote =
  listing :: "project list"
  next_id :: int

definition demo_api :: "demo_remote api" where
  "demo_api =
     \<lparr>get_projects = (\<lambda>r. (Inr (listing r), r)),
      send_project = (\<lambda>new_project r. case new_project of Project name description \<Rightarrow>
        (Inr [(''resource'', [(''name'', IdStr name), (''identifier'', IdInt (next_id r))])],
         r\<lparr>listing := listing r @ [\<lparr>prj_id = IdInt (next_id r), prj_name = name\<rparr>],
           next_id := next_id r + 1\<rparr>))\<rparr>"

definition demo_env :: "string list \<Rightarrow> demo_remote env" where
  "demo_env files =
     \<lparr>initialize_irida_api = (\<lambda>config. Inr demo_api),
      today = \<lparr>year = 2024, month = 3, day = 7\<rparr>,
      rglob = (\<lambda>path pattern. Inr files),
      open_error = None\<rparr>"

definition demo_world :: "project list \<Rightarrow> demo_remote world" where
  "demo_world ps =
     \<lparr>remote = \<lparr>listing = ps, next_id = 100\<rparr>, api_calls = [], log = [], sample_list = None\<rparr>"

text \<open>The world after \<^verbatim>\<open>demo\<close> has been created on an empty platform.\<close>

definition demo_created :: "demo_remote world" where
  "demo_created =
     \<lparr>remote = \<lparr>listing = [\<lparr>prj_id = IdInt 100, prj_name = ''demo''\<rparr>], next_id = 101\<rparr>,
      api_calls = [GetProjects, SendProject (Project ''demo'' ''Created on 2024-03-07 by BOT'')],
      log = [(INFO, Text ''Created project demo - 100'')],
      sample_list = None\<rparr>"

section \<open>Facts about the string operations\<close>

lemma replace_from_prefix:
  assumes "prefix old (c # cs)" "old \<noteq> []"
  shows "c # cs = old @ drop (length old - 1) cs"
proof -
  from assms obtain r where r: "c # cs = old @ r" by (auto simp: prefix_def)
  with assms(2) obtain o' where o: "old = c # o'" by (cases old) auto
  with r have "cs = o' @ r" by simp
  with o r show ?thesis by simp
qed

lemma replace_from_length:
  "old \<noteq> [] \<Longrightarrow> length new = length old \<Longrightarrow> length (replace_from old new s) = length s"
proof (induction old new s rule: replace_from.induct)
  case (1 old new)
  show ?case by simp
next
  case (2 old new c cs)
  define r where "r = drop (length old - 1) cs"
  show ?case
  proof (cases "prefix old (c # cs)")
    case True
    have s: "c # cs = old @ r"
      unfolding r_def by (rule replace_from_prefix[OF True "2.prems"(1)])
    have res: "replace_from old new (c # cs) = new @ replace_from old new r"
      using True by (simp add: r_def)
    have ih: "length (replace_from old new r) = length r"
      unfolding r_def by (rule "2.IH"(1)[OF True "2.prems"])
    have "length (new @ replace_from old new r) = length (old @ r)"
      using ih "2.prems"(2) by simp
    then show ?thesis unfolding res unfolding s .
  next
    case False
    then have res: "replace_from old new (c # cs) = c # replace_from old new cs"
      by simp
    show ?thesis unfolding res using "2.IH"(2)[OF False "2.prems"] by simp
  qed
qed

lemma replace_from_diff:
  "old \<noteq> [] \<Longrightarrow> length new = length old \<Longrightarrow> i < length s \<Longrightarrow>
   replace_from old new s ! i \<noteq> s ! i \<Longrightarrow>
   \<exists>k. k \<le> i \<and> i < k + length old \<and> take (length old) (drop k s) = old
       \<and> take (length old) (drop k (replace_from old new s)) = new"
proof (induction old new s arbitrary: i rule: replace_from.induct)
  case (1 old new)
  then show ?case by simp
next
  case (2 old new c cs)
  define r where "r = drop (length old - 1) cs"
  define n where "n = length old"
  have ln: "length new = n" "length old = n" using "2.prems"(2) by (simp_all add: n_def)
  show ?case
  proof (cases "prefix old (c # cs)")
    case True
    have s: "c # cs = old @ r"
      unfolding r_def by (rule replace_from_prefix[OF True "2.prems"(1)])
    have res: "replace_from old new (c # cs) = new @ replace_from old new r"
      using True by (simp add: r_def)
    have il: "i < n + length r" using "2.prems"(3)[unfolded s] by (simp add: ln)
    have ne: "(new @ replace_from old new r) ! i \<noteq> (old @ r) ! i"
      using "2.prems"(4)[unfolded res, unfolded s] .
    show ?thesis
    proof (cases "i < n")
      case True
      have "take n (drop 0 (old @ r)) = old" by (simp add: ln)
      moreover have "take n (drop 0 (new @ replace_from old new r)) = new" by (simp add: ln)
      ultimately show ?thesis unfolding res unfolding s ln using True by (intro exI[of _ 0]) simp
    next
      case False
      define j where "j = i - n"
      have i: "i = n + j" using False by (simp add: j_def)
      have jl: "j < length r" using il i by linarith
      have "replace_from old new r ! j \<noteq> r ! j"
        using ne unfolding i by (simp add: nth_append ln)
      from "2.IH"(1)[OF True "2.prems"(1,2) jl[unfolded r_def] this[unfolded r_def]]
      obtain k where k: "k \<le> j" "j < k + n" "take n (drop k r) = old"
        "take n (drop k (replace_from old new r)) = new" unfolding r_def ln by blast
      have c: "drop (n + k) (old @ r) = drop k r" by (simp add: ln)
      have d: "drop (n + k) (new @ replace_from old new r) = drop k (replace_from old new r)"
        by (simp add: ln)
      have "n + k \<le> i" "i < (n + k) + n" using k i by linarith+
      then show ?thesis unfolding res unfolding s ln using k c d by (intro exI[of _ "n + k"]) simp
    qed
  next
    case False
    then have res: "replace_from old new (c # cs) = c # replace_from old new cs"
      by simp
    from "2.prems"(4) res obtain j where i: "i = Suc j" by (cases i) auto
    have jl: "j < length cs" using "2.prems"(3) i by simp
    have ne: "replace_from old new cs ! j \<noteq> cs ! j" using "2.prems"(4) unfolding res i by simp
    from "2.IH"(2)[OF False "2.prems"(1,2) jl ne]
    obtain k where k: "k \<le> j" "j < k + n" "take n (drop k cs) = old"
        "take n (drop k (replace_from old new cs)) = new" unfolding ln by blast
    show ?thesis unfolding res ln using k i by (intro exI[of _ "Suc k"]) simp
  qed
qed

lemma replace_from_changes:
  "old \<noteq> [] \<Longrightarrow> length new = length old \<Longrightarrow> old \<noteq> new \<Longrightarrow> py_in old s \<Longrightarrow>
   replace_from old new s \<noteq> s"
proof (induction old new s rule: replace_from.induct)
  case (1 old new)
  then show ?case by simp
next
  case (2 old new c cs)
  show ?case
  proof (cases "prefix old (c # cs)")
    case True
    have s: "c # cs = old @ drop (length old - 1) cs"
      by (rule replace_from_prefix[OF True "2.prems"(1)])
    have res: "replace_from old new (c # cs) = new @ replace_from old new (drop (length old - 1) cs)"
      using True by simp
    show ?thesis
    proof
      assume "replace_from old new (c # cs) = c # cs"
      with res s have "new @ replace_from old new (drop (length old - 1) cs) = old @ drop (length old - 1) cs"
        by metis
      with "2.prems"(2) have "new = old" by (metis append_eq_append_conv)
      with "2.prems"(3) show False by simp
    qed
  next
    case False
    with "2.prems" have "py_in old cs" by simp
    from "2.IH"(2)[OF False "2.prems"(1,2,3) this] False show ?thesis by simp
  qed
qed

subsection \<open>The two outcomes of \<^verbatim>\<open>create_project\<close> after a listing\<close>

lemma create_project_found:
  assumes init: "initialize_irida_api env config = Inr a"
    and lst: "get_projects a (remote w) = (Inr ps, r1)"
    and ps: "ps = pre @ p # post" "prj_name p = name" "\<forall>q \<in> set pre. prj_name q \<noteq> name"
  shows "create_project env name config descr w =
           (Inr (prj_id p),
            w\<lparr>remote := r1, api_calls := api_calls w @ [GetProjects],
              log := log w @ [(WARNING, Text (''Project(s) '' @ name @ '' is existed'')),
                              (INFO, IdList (map prj_id (filter (\<lambda>q. prj_name q = name) ps)))]\<rparr>)"
proof -
  have f: "filter (\<lambda>q. prj_name q = name) ps = p # filter (\<lambda>q. prj_name q = name) post"
    using ps by simp
  show ?thesis
    unfolding create_project_def call_get_projects_def logging_def
    by (simp add: init lst f[symmetric] Let_def) (simp add: f)
qed


subsection \<open>Sorting by key\<close>

lemma keys_of_ok:
  "\<forall>s \<in> set names. \<exists>k. sort_key_of re s = Inr k \<Longrightarrow>
   keys_of re names = Inr (map (key_val re) names)"
  by (induction names) (auto simp: key_val_def)

lemma insort_key_tagged:
  "insort_key fst (f x, x) (map (\<lambda>y. (f y, y)) ys) = map (\<lambda>y. (f y, y)) (insort_key f x ys)"
  by (induction ys) simp_all

lemma sort_key_tagged:
  "sort_key fst (map (\<lambda>y. (f y, y)) xs) = map (\<lambda>y. (f y, y)) (sort_key f xs)"
  by (induction xs) (simp_all add: insort_key_tagged)

lemma sort_zip_keys:
  "map snd (sort_key fst (zip (map f xs) xs)) = sort_key f xs"
proof -
  have "zip (map f xs) xs = map (\<lambda>y. (f y, y)) xs"
    by (induction xs) simp_all
  then show ?thesis by (simp add: sort_key_tagged comp_def)
qed

lemma py_sorted_ok:
  "\<forall>s \<in> set names. \<exists>k. sort_key_of re s = Inr k \<Longrightarrow>
   py_sorted re names = Inr (sort_key (key_val re) names)"
  by (simp add: py_sorted_def keys_of_ok sort_zip_keys)

lemma keys_of_error:
  "keys_of re names = Inl e \<Longrightarrow> \<exists>s \<in> set names. sort_key_of re s = Inl e"
  by (induction names arbitrary: e) (auto split: sum.splits)

lemma sort_key_of_10: "sort_key_of pe_regex ''run_10_S1_R1_001.fastq.gz'' = Inr 10"
  by (simp add: sort_key_of_def pe_regex_def match_here_def lits_def digits_def newline_def
      py_int_def py_strip_def py_isspace_def is_digit_def digits_val_def)

lemma sort_key_of_2: "sort_key_of pe_regex ''run_2_S2_R1_001.fastq.gz'' = Inr 2"
  by (simp add: sort_key_of_def pe_regex_def match_here_def lits_def digits_def newline_def
      py_int_def py_strip_def py_isspace_def is_digit_def digits_val_def)

subsection \<open>The loop and the stages of \<^verbatim>\<open>prepare\<close>\<close>

lemma pairs_ok_pe:
  "pairs_ok True n \<longleftrightarrow> py_in ''_R1_'' n \<or> py_in ''_R1.non_host.fastq.gz'' n"
  by (simp add: pairs_ok_def reverse_reads_def)

lemma pairs_ok_se: "pairs_ok False n"
  by (simp add: pairs_ok_def reverse_reads_def)

lemma reverse_reads_bad: "\<not> pairs_ok pe n \<Longrightarrow> reverse_reads pe n = Inl (InvalidFileName n)"
  by (simp add: pairs_ok_def reverse_reads_def split: if_splits)

lemma reverse_reads_good:
  "pairs_ok pe n \<Longrightarrow> reverse_reads pe n = Inr (reverse_file (record_of pe pid n))"
  by (simp add: pairs_ok_def record_of_def split: sum.splits)

lemma write_rows_zip:
  "write_rows pe pid (zip (map (split0 (active_regex pe)) names) names) fh =
     (pairing_result pe names, fh @ concat (map manifest_row (written_records pe pid names)))"
proof (induction names arbitrary: fh)
  case Nil
  show ?case by (simp add: pairing_result_def written_records_def)
next
  case (Cons n names)
  show ?case
  proof (cases "pairs_ok pe n")
    case True
    have row: "row_text (split0 (active_regex pe) n) pid n (reverse_file (record_of pe pid n))
                 = manifest_row (record_of pe pid n)"
      by (simp add: manifest_row_def record_of_def)
    show ?thesis
      using True Cons.IH
      by (simp add: reverse_reads_good[OF True, of pid] row pairing_result_def written_records_def)
  next
    case False
    then show ?thesis
      by (simp add: reverse_reads_bad pairing_result_def written_records_def)
  qed
qed

lemma prepare_resolved:
  assumes "resolve_pid env path pid name config w = (Inr i, w1)"
    and "sorted_fastq_names env path pattern pe do_sort = Inr names"
    and "open_error env = None"
  shows "prepare env path pattern pid name pe do_sort config w =
           (pairing_result pe names,
            w1\<lparr>sample_list := Some (manifest_text (written_records pe (py_str i) names))\<rparr>)"
  using assms by (simp add: prepare_def write_rows_zip manifest_text_def)

lemma prepare_cases:
  "prepare env path pattern pid name pe do_sort config w =
     (case resolve_pid env path pid name config w of
        (Inl e, w1) \<Rightarrow> (Inl e, w1)
      | (Inr i, w1) \<Rightarrow>
          (case sorted_fastq_names env path pattern pe do_sort of
             Inl e \<Rightarrow> (Inl e, w1)
           | Inr names \<Rightarrow>
               (case open_error env of
                  Some e \<Rightarrow> (Inl e, w1)
                | None \<Rightarrow>
                    (pairing_result pe names,
                     w1\<lparr>sample_list := Some (manifest_text (written_records pe (py_str i) names))\<rparr>))))"
  by (simp add: prepare_def write_rows_zip manifest_text_def
      split: prod.splits sum.splits option.splits)

lemma create_project_frame:
  assumes "create_project env name config descr w = (res, w1)"
  shows "sample_list w1 = sample_list w
         \<and> (\<exists>k. api_calls w1 = api_calls w @ k
                \<and> (k = [] \<and> remote w1 = remote w \<and> (\<exists>e. res = Inl e)
                    \<or> k = [GetProjects] \<or> (\<exists>d. k = [GetProjects, SendProject (Project name d)])))"
  using assms
  unfolding create_project_def call_get_projects_def call_send_project_def logging_def Let_def
  by (auto split: sum.splits prod.splits if_splits)

lemma resolve_pid_frame:
  assumes "resolve_pid env path pid name config w = (res, w1)"
  shows "sample_list w1 = sample_list w
         \<and> (\<exists>k. api_calls w1 = api_calls w @ k
                \<and> (k = [] \<and> remote w1 = remote w
                    \<or> k = [GetProjects] \<or> (\<exists>n d. k = [GetProjects, SendProject (Project n d)])))"
proof (cases pid)
  case (Some i)
  with assms show ?thesis by (simp add: resolve_pid_def)
next
  case None
  show ?thesis
  proof (cases name)
    case (Some n)
    with None assms have "create_project env n config None w = (res, w1)"
      by (simp add: resolve_pid_def)
    from create_project_frame[OF this] show ?thesis by blast
  next
    case nn: None
    show ?thesis
    proof (cases "derive_project_name env path")
      case (Inl e)
      with None nn assms show ?thesis by (simp add: resolve_pid_def)
    next
      case (Inr n)
      with None nn assms have "create_project env n config None
          (logging INFO (Text (''Project name is: '' @ n)) w) = (res, w1)"
        by (simp add: resolve_pid_def)
      from create_project_frame[OF this] show ?thesis by (simp add: logging_def) blast
    qed
  qed
qed

subsection \<open>Concrete inputs\<close>

lemma resolve_pid_given:
  "resolve_pid env path (Some i) name config w = (Inr (IdStr i), w)"
  by (simp add: resolve_pid_def)

lemma demo_scan_unsorted:
  "sorted_fastq_names (demo_env files) path pattern pe False = Inr files"
  by (simp add: sorted_fastq_names_def demo_env_def)

lemma demo_open: "open_error (demo_env files) = None"
  by (simp add: demo_env_def)

lemma weird_unpaired:
  "\<not> py_in ''_R1_'' ''weird.file.gz'' \<and> \<not> py_in ''_R1.non_host.fastq.gz'' ''weird.file.gz''"
  by simp

lemma x_paired: "py_in ''_R1_'' ''X_S1_R1_001.fastq.gz''"
  by simp

lemma x_record:
  "record_of True pid ''X_S1_R1_001.fastq.gz'' =
     \<lparr>sample_id = ''X'', project_id = pid, forward_file = ''X_S1_R1_001.fastq.gz'',
      reverse_file = ''X_S1_R2_001.fastq.gz''\<rparr>"
  by (simp add: record_of_def active_regex_def reverse_reads_def py_replace_def pe_regex_def
      match_here_def lits_def digits_def newline_def)

lemmas eval_key = sort_key_of_def pe_regex_def match_here_def lits_def digits_def newline_def
      py_int_def py_strip_def py_isspace_def is_digit_def digits_val_def

lemma sort_key_of_A: "sort_key_of pe_regex ''A_S10_R1_001.fastq.gz'' = Inl (InvalidLiteral ''A'')"
  by (simp add: eval_key)

lemma sort_key_of_A10: "sort_key_of pe_regex ''A_10_S1_R1_001.fastq.gz'' = Inr 10"
  by (simp add: eval_key)

lemma sort_key_of_A2: "sort_key_of pe_regex ''A_2_S2_R1_001.fastq.gz'' = Inr 2"
  by (simp add: eval_key)

lemma py_sorted_S10_S2:
  "py_sorted pe_regex [''A_S10_R1_001.fastq.gz'', ''A_S2_R1_001.fastq.gz'']
     = Inl (InvalidLiteral ''A'')"
  by (simp add: py_sorted_def sort_key_of_A)

lemma py_sorted_A10_A2:
  "py_sorted pe_regex [''A_10_S1_R1_001.fastq.gz'', ''A_2_S2_R1_001.fastq.gz'']
     = Inr [''A_2_S2_R1_001.fastq.gz'', ''A_10_S1_R1_001.fastq.gz'']"
  by (simp add: py_sorted_def sort_key_of_A10 sort_key_of_A2)

lemma records_A2_A10:
  "written_records True pid [''A_2_S2_R1_001.fastq.gz'', ''A_10_S1_R1_001.fastq.gz''] =
     [\<lparr>sample_id = ''A_2'', project_id = pid, forward_file = ''A_2_S2_R1_001.fastq.gz'',
       reverse_file = ''A_2_S2_R2_001.fastq.gz''\<rparr>,
      \<lparr>sample_id = ''A_10'', project_id = pid, forward_file = ''A_10_S1_R1_001.fastq.gz'',
       reverse_file = ''A_10_S1_R2_001.fastq.gz''\<rparr>]"
  by (simp add: written_records_def pairs_ok_pe record_of_def active_regex_def reverse_reads_def
      py_replace_def pe_regex_def match_here_def lits_def digits_def newline_def)

lemma pairing_A2_A10:
  "pairing_result True [''A_2_S2_R1_001.fastq.gz'', ''A_10_S1_R1_001.fastq.gz''] = Inr ()"
  by (simp add: pairing_result_def pairs_ok_pe)

lemma demo_rglob: "rglob (demo_env files) path pattern = Inr files"
  by (simp add: demo_env_def)

lemma create_project_calls:
  assumes "initialize_irida_api env config = Inr a"
  shows "\<exists>k. api_calls (snd (create_project env name config descr w)) = api_calls w @ GetProjects # k
             \<and> (k = [] \<or> (\<exists>d. k = [SendProject (Project name d)]))"
  using assms
  unfolding create_project_def call_get_projects_def call_send_project_def logging_def Let_def
  by (auto split: sum.splits prod.splits if_splits)

lemma derive_project_name_parts:
  "path_parts path \<noteq> [] \<Longrightarrow>
   derive_project_name env path =
     Inr (''QIB-'' @ py_replace ''_'' ''-'' (last (path_parts path)) @ ''-''
            @ (case re_search run_date_regex path of
                 Some m \<Rightarrow> take 6 m
               | None \<Rightarrow> strftime_ymd (today env)))"
  by (simp add: derive_project_name_def Let_def split: list.splits)

lemma written_records_pid:
  "\<forall>r \<in> set (written_records pe pid names). project_id r = pid"
  by (auto simp: written_records_def record_of_def)

lemma demo_resolve:
  "resolve_pid (demo_env files) path None (Some ''demo'') config (demo_world [])
     = (Inr (IdInt 100), demo_created)"
  by (simp add: resolve_pid_def create_project_def call_get_projects_def call_send_project_def
      logging_def resource_identifier_def demo_env_def demo_api_def demo_world_def demo_created_def
      date_str_def zpad_def digit_char_def digits_def Let_def)

lemma records_A_B:
  "written_records False pid [''A.fastq.gz'', ''B.fastq.gz''] =
     [\<lparr>sample_id = ''A'', project_id = pid, forward_file = ''A.fastq.gz'', reverse_file = []\<rparr>,
      \<lparr>sample_id = ''B'', project_id = pid, forward_file = ''B.fastq.gz'', reverse_file = []\<rparr>]"
  by (simp add: written_records_def pairs_ok_se record_of_def active_regex_def reverse_reads_def
      se_regex_def match_here_def lits_def newline_def)

lemma pairing_se: "pairing_result False names = Inr ()"
proof -
  have d: "dropWhile (pairs_ok False) names = []"
    unfolding dropWhile_eq_Nil_conv by (simp add: pairs_ok_se)
  show ?thesis unfolding pairing_result_def d by simp
qed

lemma demo_run:
  "prepare (demo_env [''A.fastq.gz'', ''B.fastq.gz'']) ''/data/run'' ''*_R1_001.fastq.gz'' None
      (Some ''demo'') False False ''c.conf'' (demo_world [])
   = (Inr (),
      demo_created\<lparr>sample_list := Some (manifest_text
        [\<lparr>sample_id = ''A'', project_id = ''100'', forward_file = ''A.fastq.gz'',
          reverse_file = []\<rparr>,
         \<lparr>sample_id = ''B'', project_id = ''100'', forward_file = ''B.fastq.gz'',
          reverse_file = []\<rparr>])\<rparr>)"
proof -
  have "py_str (IdInt 100) = ''100''" by (simp add: digit_char_def digits_def)
  then show ?thesis
    by (simp only: prepare_resolved[OF demo_resolve demo_scan_unsorted demo_open]
        records_A_B pairing_se)
qed

subsection \<open>Single-end names\<close>

lemma match_seq_Cons:
  "match_seq (a # as) s \<longleftrightarrow> (\<exists>c t. s = c # t \<and> atom_ok a c \<and> match_seq as t)"
  by (cases s) simp_all

lemma match_here_se:
  "match_here se_regex s \<longleftrightarrow>
     (\<exists>c t. s = c # ''fastq'' @ t \<and> c \<noteq> newline)
     \<or> (\<exists>c d t. s = c # ''fq'' @ d # t \<and> c \<noteq> newline \<and> d \<noteq> newline)"
  by (auto simp: match_here_def se_regex_def lits_def match_seq_Cons)

lemma split0_first_match:
  "\<exists>rest. n = split0 re n @ rest \<and> (rest = [] \<or> match_here re rest)
          \<and> (\<forall>k < length (split0 re n). \<not> match_here re (drop k n))"
proof (induction n)
  case Nil
  show ?case by simp
next
  case (Cons c cs)
  show ?case
  proof (cases "match_here re (c # cs)")
    case True
    then show ?thesis by simp
  next
    case False
    from Cons obtain rest where
      r: "cs = split0 re cs @ rest" "rest = [] \<or> match_here re rest"
        "\<forall>k < length (split0 re cs). \<not> match_here re (drop k cs)"
      by blast
    have "\<not> match_here re (drop k (c # cs))" if "k < length (split0 re (c # cs))" for k
      using that False r(3) by (cases k) simp_all
    moreover have "c # cs = split0 re (c # cs) @ rest" using False r(1) by simp
    ultimately show ?thesis using r(2) by blast
  qed
qed

lemma written_records_se:
  "written_records False pid names =
     map (\<lambda>n. \<lparr>sample_id = split0 se_regex n, project_id = pid, forward_file = n,
                reverse_file = []\<rparr>) names"
proof -
  have t: "takeWhile (pairs_ok False) names = names"
    unfolding takeWhile_eq_all_conv by (simp add: pairs_ok_se)
  show ?thesis
    unfolding written_records_def t
    by (simp add: record_of_def active_regex_def reverse_reads_def)
qed

lemma split0_A_B: "split0 se_regex ''A.fastq.gz'' = ''A''" "split0 se_regex ''B.fastq.gz'' = ''B''"
  by (simp_all add: se_regex_def match_here_def lits_def newline_def)

subsection \<open>A run with the identifier given\<close>

lemma prepare_given:
  "prepare env path pattern (Some i) name pe do_sort config w =
     (case sorted_fastq_names env path pattern pe do_sort of
        Inl e \<Rightarrow> (Inl e, w)
      | Inr names \<Rightarrow>
          (case open_error env of
             Some e \<Rightarrow> (Inl e, w)
           | None \<Rightarrow>
               (pairing_result pe names,
                w\<lparr>sample_list := Some (manifest_text (written_records pe i names))\<rparr>)))"
  by (simp add: prepare_cases resolve_pid_given split: sum.splits option.splits)

lemma prepare_after_resolution:
  assumes "resolve_pid env path pid name config w = (Inr j, w1)"
  shows "prepare env path pattern pid name pe do_sort config w
           = prepare env path pattern (Some (py_str j)) name pe do_sort config w1"
  by (simp add: prepare_cases[of _ _ _ pid] assms prepare_given)

lemma demo_parts: "path_parts ''/data/230101_NB501_run'' = [''/'', ''data'', ''230101_NB501_run'']"
  by (simp add: path_parts_def)

lemma demo_run_date:
  "re_search run_date_regex ''/data/230101_NB501_run'' = Some ''230101_NB501_run''"
  by (simp add: run_date_regex_def match_here_def lits_def digits_def eval_nat_numeral)

lemma demo_derived_name:
  "''QIB-'' @ py_replace ''_'' ''-'' (last (path_parts ''/data/230101_NB501_run'')) @ ''-''
     @ (case re_search run_date_regex ''/data/230101_NB501_run'' of
          Some m \<Rightarrow> take 6 m
        | None \<Rightarrow> strftime_ymd (today env))
   = ''QIB-230101-NB501-run-230101''"
  unfolding demo_parts demo_run_date by (simp add: py_replace_def)

lemma demo_given_run:
  "prepare (demo_env [''A.fastq.gz'']) ''/data/run'' ''*.fastq.gz'' (Some ''7'') None False False
     ''c.conf'' (demo_world [])
   = (Inr (), (demo_world [])\<lparr>sample_list := Some (manifest_text
        [\<lparr>sample_id = ''A'', project_id = ''7'', forward_file = ''A.fastq.gz'',
          reverse_file = []\<rparr>])\<rparr>)"
  by (simp only: prepare_given demo_scan_unsorted demo_open sum.case option.case pairing_se
      written_records_se list.map split0_A_B)

subsection \<open>Reading a manifest\<close>

lemma py_split_line:
  "sep \<notin> set f \<Longrightarrow> py_split sep (f @ sep # rest) = f # py_split sep rest"
  by (induction f) auto

lemma py_split_rows:
  "\<forall>l \<in> set ls. sep \<notin> set l \<Longrightarrow>
   py_split sep (concat (map (\<lambda>l. l @ [sep]) ls)) = ls @ [[]]"
  by (induction ls) (simp_all add: py_split_line)

lemma split_str_field:
  "\<not> py_in '', '' f \<Longrightarrow> split_str '', '' (f @ '', '' @ rest) = f # split_str '', '' rest"
proof (induction f)
  case Nil
  show ?case by simp
next
  case (Cons c f)
  from Cons.prems have np: "\<not> prefix '', '' (c # f)" and nf: "\<not> py_in '', '' f" by simp_all
  have "\<not> prefix '', '' (c # f @ '', '' @ rest)"
    using np by (cases f) auto
  then show ?case using Cons.IH[OF nf] by simp
qed

lemma split_str_last: "\<not> py_in '', '' f \<Longrightarrow> split_str '', '' f = [f]"
proof (induction f)
  case Nil
  show ?case by simp
next
  case (Cons c f)
  then show ?case by simp
qed

lemma parse_row_body:
  assumes "clean (sample_id r)" "clean (project_id r)" "clean (forward_file r)"
    "clean (reverse_file r)"
  shows "parse_row (row_body r) = Some r"
proof -
  from assms have a: "\<not> py_in '', '' (sample_id r)" and b: "\<not> py_in '', '' (project_id r)"
    and c: "\<not> py_in '', '' (forward_file r)" and d: "\<not> py_in '', '' (reverse_file r)"
    by (simp_all add: clean_def)
  have "split_str '', '' (row_body r)
          = [sample_id r, project_id r, forward_file r, reverse_file r]"
    unfolding row_body_def
    by (simp only: split_str_field[OF a] split_str_field[OF b] split_str_field[OF c]
        split_str_last[OF d])
  then show ?thesis by (simp add: parse_row_def)
qed

lemma row_body_no_newline:
  assumes "clean (sample_id r)" "clean (project_id r)" "clean (forward_file r)"
    "clean (reverse_file r)"
  shows "newline \<notin> set (row_body r)"
  using assms by (simp add: row_body_def clean_def newline_def)

lemma manifest_row_body: "manifest_row r = row_body r @ [newline]"
  by (simp add: manifest_row_def row_text_def row_body_def)

lemma manifest_lines:
  assumes "\<forall>r \<in> set recs. newline \<notin> set (row_body r)"
  shows "py_split newline (manifest_text recs) =
           ''[Data]'' # ''Sample_Name,Project_ID,File_Forward,File_Reverse''
             # map row_body recs @ [[]]"
proof -
  have "manifest_row = (\<lambda>r. row_body r @ [newline])"
    by (rule ext) (rule manifest_row_body)
  then have rows:
    "concat (map manifest_row recs) = concat (map (\<lambda>l. l @ [newline]) (map row_body recs))"
    by (simp add: comp_def)
  have r: "py_split newline (concat (map manifest_row recs)) = map row_body recs @ [[]]"
    unfolding rows using assms by (intro py_split_rows) simp
  have n1: "newline \<notin> set ''[Data]''" by (simp add: newline_def)
  have n2: "newline \<notin> set ''Sample_Name,Project_ID,File_Forward,File_Reverse''"
    by (simp add: newline_def)
  have "manifest_text recs = ''[Data]'' @ newline
          # (''Sample_Name,Project_ID,File_Forward,File_Reverse'' @ newline
               # concat (map manifest_row recs))"
    by (simp add: manifest_text_def header_def)
  then show ?thesis
    by (simp only: py_split_line[OF n1] py_split_line[OF n2] r)
qed

lemma those_parse_rows:
  "\<forall>r \<in> set recs. parse_row (row_body r) = Some r \<Longrightarrow>
   those (map parse_row (map row_body recs)) = Some recs"
  by (induction recs) simp_all

lemma write_rows_all_paired:
  assumes "\<forall>n \<in> set names. pairs_ok pe n"
  shows "write_rows pe pid (zip (map (split0 (active_regex pe)) names) names) header
           = (Inr (), manifest_text (map (record_of pe pid) names))"
proof -
  have t: "takeWhile (pairs_ok pe) names = names"
    unfolding takeWhile_eq_all_conv using assms by simp
  have d: "dropWhile (pairs_ok pe) names = []"
    unfolding dropWhile_eq_Nil_conv using assms by simp
  show ?thesis
    unfolding write_rows_zip pairing_result_def written_records_def t d manifest_text_def
    by simp
qed

lemma split0_comma: "split0 se_regex ''a, a.fastq.gz'' = ''a, a''"
  by (simp add: se_regex_def match_here_def lits_def newline_def)

lemma split0_a: "split0 se_regex ''a.fastq.gz'' = ''a''"
  by (simp add: se_regex_def match_here_def lits_def newline_def)

lemma comma_run:
  "prepare (demo_env [''a, a.fastq.gz'']) ''/data/run'' ''*.fastq.gz'' (Some ''7'') None False False
     ''c.conf'' (demo_world [])
   = (Inr (), (demo_world [])\<lparr>sample_list := Some (manifest_text
        [\<lparr>sample_id = ''a, a'', project_id = ''7'', forward_file = ''a, a.fastq.gz'',
          reverse_file = []\<rparr>])\<rparr>)"
  by (simp only: prepare_given demo_scan_unsorted demo_open sum.case option.case pairing_se
      written_records_se list.map split0_comma)

lemma comma_pid_run:
  "prepare (demo_env [''a.fastq.gz'']) ''/data/run'' ''*.fastq.gz'' (Some ''a, 7, a'') None False
     False ''c.conf'' (demo_world [])
   = (Inr (), (demo_world [])\<lparr>sample_list := Some (manifest_text
        [\<lparr>sample_id = ''a'', project_id = ''a, 7, a'', forward_file = ''a.fastq.gz'',
          reverse_file = []\<rparr>])\<rparr>)"
  by (simp only: prepare_given demo_scan_unsorted demo_open sum.case option.case pairing_se
      written_records_se list.map split0_a)

subsection \<open>The text a run writes\<close>

lemma pairs_ok_isl: "pairs_ok pe = (\<lambda>n. \<not> isl (reverse_reads pe n))"
  by (rule ext) (simp add: pairs_ok_def split: sum.splits)

lemma manifest_row_record_of:
  "pairs_ok pe n \<Longrightarrow>
   manifest_row (record_of pe p n)
     = split0 (active_regex pe) n @ '', '' @ p @ '', '' @ n @ '', ''
         @ projr (reverse_reads pe n) @ [newline]"
  by (simp add: manifest_row_def row_text_def record_of_def pairs_ok_def split: sum.splits)

lemma manifest_text_written:
  "manifest_text (written_records pe p names)
     = ''[Data]'' @ [newline]
       @ ''Sample_Name,Project_ID,File_Forward,File_Reverse'' @ [newline]
       @ concat (map (\<lambda>n. split0 (active_regex pe) n @ '', '' @ p @ '', '' @ n @ '', ''
                            @ projr (reverse_reads pe n) @ [newline])
                   (takeWhile (\<lambda>n. \<not> isl (reverse_reads pe n)) names))"
proof -
  have "map manifest_row (map (record_of pe p) (takeWhile (pairs_ok pe) names))
          = map (\<lambda>n. split0 (active_regex pe) n @ '', '' @ p @ '', '' @ n @ '', ''
                            @ projr (reverse_reads pe n) @ [newline])
              (takeWhile (pairs_ok pe) names)"
    unfolding map_map
  proof (rule map_cong[OF refl])
    fix n assume "n \<in> set (takeWhile (pairs_ok pe) names)"
    then have "pairs_ok pe n" by (rule set_takeWhileD[THEN conjunct2])
    then show "(manifest_row \<circ> record_of pe p) n
        = split0 (active_regex pe) n @ '', '' @ p @ '', '' @ n @ '', ''
            @ projr (reverse_reads pe n) @ [newline]"
      by (simp only: comp_apply manifest_row_record_of)
  qed
  then show ?thesis
    unfolding manifest_text_def written_records_def header_def pairs_ok_isl
    by (simp only: append_assoc)
qed

lemma pairing_result_isl:
  "pairing_result pe names
     = (case dropWhile (\<lambda>n. \<not> isl (reverse_reads pe n)) names of
          [] \<Rightarrow> Inr ()
        | n # rest \<Rightarrow> Inl (InvalidFileName n))"
  by (simp add: pairing_result_def pairs_ok_isl)

lemma prepare_given_exact:
  "prepare env path pattern (Some i) name pe do_sort config w =
     (case sorted_fastq_names env path pattern pe do_sort of
        Inl e \<Rightarrow> (Inl e, w)
      | Inr names \<Rightarrow>
          (case open_error env of
             Some e \<Rightarrow> (Inl e, w)
           | None \<Rightarrow>
               ((case dropWhile (\<lambda>n. \<not> isl (reverse_reads pe n)) names of
                   [] \<Rightarrow> Inr ()
                 | n # rest \<Rightarrow> Inl (InvalidFileName n)),
                w\<lparr>sample_list := Some
                  (''[Data]'' @ [newline]
                   @ ''Sample_Name,Project_ID,File_Forward,File_Reverse'' @ [newline]
                   @ concat (map (\<lambda>n. split0 (active_regex pe) n @ '', '' @ i @ '', '' @ n
                                        @ '', '' @ projr (reverse_reads pe n) @ [newline])
                               (takeWhile (\<lambda>n. \<not> isl (reverse_reads pe n)) names)))\<rparr>)))"
  by (simp only: prepare_given manifest_text_written pairing_result_isl)

lemma rows_A_B:
  "concat (map (\<lambda>n. split0 (active_regex False) n @ '', '' @ p @ '', '' @ n @ '', ''
                       @ projr (reverse_reads False n) @ [newline])
             (takeWhile (\<lambda>n. \<not> isl (reverse_reads False n)) [''A.fastq.gz'', ''B.fastq.gz'']))
   = ''A, '' @ p @ '', A.fastq.gz, '' @ [newline] @ ''B, '' @ p @ '', B.fastq.gz, '' @ [newline]"
proof -
  have r: "reverse_reads False n = Inr []" for n by (simp add: reverse_reads_def)
  have a: "active_regex False = se_regex" by (simp add: active_regex_def)
  show ?thesis unfolding r a by (simp add: split0_A_B del: split0.simps)
qed

lemma rows_A:
  "concat (map (\<lambda>n. split0 (active_regex False) n @ '', '' @ p @ '', '' @ n @ '', ''
                       @ projr (reverse_reads False n) @ [newline])
             (takeWhile (\<lambda>n. \<not> isl (reverse_reads False n)) [''A.fastq.gz'']))
   = ''A, '' @ p @ '', A.fastq.gz, '' @ [newline]"
proof -
  have r: "reverse_reads False n = Inr []" for n by (simp add: reverse_reads_def)
  have a: "active_regex False = se_regex" by (simp add: active_regex_def)
  show ?thesis unfolding r a by (simp add: split0_A_B del: split0.simps)
qed

lemma write_rows_exact:
  "write_rows pe pid (zip (map (split0 (active_regex pe)) names) names) header
     = ((case dropWhile (\<lambda>n. \<not> isl (reverse_reads pe n)) names of
           [] \<Rightarrow> Inr ()
         | n # rest \<Rightarrow> Inl (InvalidFileName n)),
        ''[Data]'' @ [newline]
        @ ''Sample_Name,Project_ID,File_Forward,File_Reverse'' @ [newline]
        @ concat (map (\<lambda>n. split0 (active_regex pe) n @ '', '' @ pid @ '', '' @ n @ '', ''
                             @ projr (reverse_reads pe n) @ [newline])
                    (takeWhile (\<lambda>n. \<not> isl (reverse_reads pe n)) names)))"
  unfolding write_rows_zip pairing_result_isl
  using manifest_text_written[of pe pid names]
  by (simp only: manifest_text_def)

subsection \<open>What a single-end run does with every name\<close>

lemma single_end_run:
  "sorted_fastq_names env path pattern False False = rglob env path ''*.fastq.gz''
   \<and> prepare env path pattern pid name False do_sort config w
       = prepare env path ''*.fastq.gz'' pid name False do_sort config w
   \<and> (\<forall>i w1 names.
         resolve_pid env path pid name config w = (Inr i, w1)
         \<and> sorted_fastq_names env path pattern False do_sort = Inr names
         \<and> open_error env = None
       \<longrightarrow> prepare env path pattern pid name False do_sort config w
             = (Inr (),
                w1\<lparr>sample_list := Some (manifest_text
                  (map (\<lambda>n. \<lparr>sample_id = split0 se_regex n, project_id = py_str i,
                             forward_file = n, reverse_file = []\<rparr>) names))\<rparr>))
   \<and> (\<exists>rest. n = split0 se_regex n @ rest \<and> (rest = [] \<or> match_here se_regex rest)
          \<and> (\<forall>k < length (split0 se_regex n). \<not> match_here se_regex (drop k n)))
   \<and> (match_here se_regex s \<longleftrightarrow>
         (\<exists>c t. s = c # ''fastq'' @ t \<and> c \<noteq> newline)
         \<or> (\<exists>c d t. s = c # ''fq'' @ d # t \<and> c \<noteq> newline \<and> d \<noteq> newline))
   \<and> split0 se_regex ''A.fastq.gz'' = ''A'' \<and> split0 se_regex ''B.fastq.gz'' = ''B''"
proof (intro conjI allI impI)
  show "sorted_fastq_names env path pattern False False = rglob env path ''*.fastq.gz''"
    by (simp add: sorted_fastq_names_def active_pattern_def split: sum.splits)
  show "prepare env path pattern pid name False do_sort config w
       = prepare env path ''*.fastq.gz'' pid name False do_sort config w"
  proof -
    have "sorted_fastq_names env path pattern False do_sort
            = sorted_fastq_names env path ''*.fastq.gz'' False do_sort"
      by (simp add: sorted_fastq_names_def active_pattern_def)
    then show ?thesis unfolding prepare_def by (simp only:)
  qed
  show "\<exists>rest. n = split0 se_regex n @ rest \<and> (rest = [] \<or> match_here se_regex rest)
          \<and> (\<forall>k < length (split0 se_regex n). \<not> match_here se_regex (drop k n))"
    by (rule split0_first_match)
  show "match_here se_regex s \<longleftrightarrow>
         (\<exists>c t. s = c # ''fastq'' @ t \<and> c \<noteq> newline)
         \<or> (\<exists>c d t. s = c # ''fq'' @ d # t \<and> c \<noteq> newline \<and> d \<noteq> newline)"
    by (rule match_here_se)
  show "split0 se_regex ''A.fastq.gz'' = ''A''" "split0 se_regex ''B.fastq.gz'' = ''B''"
    by (rule split0_A_B)+
next
  fix i w1 names
  assume a: "resolve_pid env path pid name config w = (Inr i, w1)
         \<and> sorted_fastq_names env path pattern False do_sort = Inr names
         \<and> open_error env = None"
  then have a1: "resolve_pid env path pid name config w = (Inr i, w1)"
    and a2: "sorted_fastq_names env path pattern False do_sort = Inr names"
    and a3: "open_error env = None" by simp_all
  show "prepare env path pattern pid name False do_sort config w
             = (Inr (),
                w1\<lparr>sample_list := Some (manifest_text
                  (map (\<lambda>n. \<lparr>sample_id = split0 se_regex n, project_id = py_str i,
                             forward_file = n, reverse_file = []\<rparr>) names))\<rparr>)"
    by (simp only: prepare_resolved[OF a1 a2 a3] pairing_se written_records_se)
qed

section \<open>Pairing\<close>

text \<open>
  C5. The pairing rules are tried in order. A name that contains \<^verbatim>\<open>_R1_\<close> gets
  \<^verbatim>\<open>_R2_\<close> in its place: the reverse name has the length of the forward name, is not the
  forward name, and every position where the two differ lies inside an occurrence of
  \<^verbatim>\<open>_R1_\<close> of the forward name that reads \<^verbatim>\<open>_R2_\<close> in the reverse name. Otherwise a
  name that contains \<^verbatim>\<open>_R1.non_host.fastq.gz\<close> gets \<^verbatim>\<open>_R2.non_host.fastq.gz\<close> in its
  place. Every other name fails with the invalid-file-name error, which carries the name.
\<close>

theorem pair_resolver_rules:
  "reverse_reads True name =
     (if py_in ''_R1_'' name then Inr (py_replace ''_R1_'' ''_R2_'' name)
      else if py_in ''_R1.non_host.fastq.gz'' name
      then Inr (py_replace ''_R1.non_host.fastq.gz'' ''_R2.non_host.fastq.gz'' name)
      else Inl (InvalidFileName name))
   \<and> (py_in ''_R1_'' name \<longrightarrow>
        (\<exists>rv. reverse_reads True name = Inr rv \<and> rv \<noteq> name \<and> length rv = length name
           \<and> (\<forall>i < length name. rv ! i \<noteq> name ! i \<longrightarrow>
                 (\<exists>k. k \<le> i \<and> i < k + 4 \<and> take 4 (drop k name) = ''_R1_''
                    \<and> take 4 (drop k rv) = ''_R2_''))))"
proof (intro conjI impI)
  show "reverse_reads True name =
     (if py_in ''_R1_'' name then Inr (py_replace ''_R1_'' ''_R2_'' name)
      else if py_in ''_R1.non_host.fastq.gz'' name
      then Inr (py_replace ''_R1.non_host.fastq.gz'' ''_R2.non_host.fastq.gz'' name)
      else Inl (InvalidFileName name))"
    by (simp only: reverse_reads_def if_True)
next
  assume m: "py_in ''_R1_'' name"
  let ?rv = "replace_from ''_R1_'' ''_R2_'' name"
  have l4: "length ''_R1_'' = 4" by simp
  have rr: "reverse_reads True name = Inr ?rv"
    using m by (simp add: reverse_reads_def py_replace_def)
  have len: "length ?rv = length name"
    by (rule replace_from_length) simp_all
  have neq: "?rv \<noteq> name"
    by (rule replace_from_changes[OF _ _ _ m]) simp_all
  have diff: "\<exists>k. k \<le> i \<and> i < k + 4 \<and> take 4 (drop k name) = ''_R1_''
       \<and> take 4 (drop k ?rv) = ''_R2_''"
    if "i < length name" "?rv ! i \<noteq> name ! i" for i
  proof -
    have "\<exists>k. k \<le> i \<and> i < k + length ''_R1_'' \<and> take (length ''_R1_'') (drop k name) = ''_R1_''
       \<and> take (length ''_R1_'') (drop k ?rv) = ''_R2_''"
      using that by (intro replace_from_diff) simp_all
    then show ?thesis unfolding l4 .
  qed
  from rr len neq diff
  show "\<exists>rv. reverse_reads True name = Inr rv \<and> rv \<noteq> name \<and> length rv = length name
           \<and> (\<forall>i < length name. rv ! i \<noteq> name ! i \<longrightarrow>
                 (\<exists>k. k \<le> i \<and> i < k + 4 \<and> take 4 (drop k name) = ''_R1_''
                    \<and> take 4 (drop k rv) = ''_R2_''))"
    by blast
qed

theorem pair_resolver_rules_witness:
  "py_in ''_R1_'' ''X_S1_R1_001.fastq.gz''
   \<and> reverse_reads True ''X_S1_R1_001.fastq.gz'' = Inr ''X_S1_R2_001.fastq.gz''
   \<and> reverse_reads True ''S_R1.non_host.fastq.gz'' = Inr ''S_R2.non_host.fastq.gz''
   \<and> reverse_reads True ''weird.file.gz'' = Inl (InvalidFileName ''weird.file.gz'')"
  using pair_resolver_rules[of "''X_S1_R1_001.fastq.gz''"]
    pair_resolver_rules[of "''S_R1.non_host.fastq.gz''"]
    pair_resolver_rules[of "''weird.file.gz''"]
  by (simp add: py_replace_def)

section \<open>Project resolution\<close>

text \<open>
  C3. When the listing holds a project whose name is equal to the requested name
  (equality of strings: exact and case-sensitive), \<^verbatim>\<open>create_project\<close> returns the
  identifier of the first such project in listing order, issues the listing request and
  no create request, and logs a warning (for every match, so also when several projects
  share the name). Run again on a listing that has not changed, it returns the same
  identifier, again with a listing request only.
\<close>

theorem project_found_first_match:
  assumes init: "initialize_irida_api env config = Inr a"
    and lst: "get_projects a (remote w) = (Inr ps, r1)"
    and ex: "\<exists>q \<in> set ps. prj_name q = name"
  shows "\<exists>pre p post w1.
           ps = pre @ p # post \<and> prj_name p = name \<and> (\<forall>q \<in> set pre. prj_name q \<noteq> name)
           \<and> create_project env name config descr w = (Inr (prj_id p), w1)
           \<and> api_calls w1 = api_calls w @ [GetProjects]
           \<and> remote w1 = r1
           \<and> (WARNING, Text (''Project(s) '' @ name @ '' is existed'')) \<in> set (log w1)
           \<and> (get_projects a r1 = (Inr ps, r2) \<longrightarrow>
                (\<exists>w2. create_project env name config descr w1 = (Inr (prj_id p), w2)
                   \<and> api_calls w2 = api_calls w @ [GetProjects, GetProjects]
                   \<and> remote w2 = r2))"
proof -
  from ex obtain pre p post where
    ps: "ps = pre @ p # post" "prj_name p = name" "\<forall>q \<in> set pre. prj_name q \<noteq> name"
    using split_list_first_prop[of ps "\<lambda>q. prj_name q = name"] by blast
  define w1 where "w1 = snd (create_project env name config descr w)"
  have one: "create_project env name config descr w = (Inr (prj_id p), w1)"
    unfolding w1_def by (simp add: create_project_found[OF init lst ps])
  have w1: "api_calls w1 = api_calls w @ [GetProjects]" "remote w1 = r1"
    "(WARNING, Text (''Project(s) '' @ name @ '' is existed'')) \<in> set (log w1)"
    unfolding w1_def by (simp_all add: create_project_found[OF init lst ps])
  have two: "\<exists>w2. create_project env name config descr w1 = (Inr (prj_id p), w2)
                   \<and> api_calls w2 = api_calls w @ [GetProjects, GetProjects]
                   \<and> remote w2 = r2"
    if again: "get_projects a r1 = (Inr ps, r2)"
  proof -
    have "get_projects a (remote w1) = (Inr ps, r2)" using again w1(2) by simp
    from create_project_found[OF init this ps] w1(1) show ?thesis by simp
  qed
  from ps one w1 two show ?thesis by blast
qed

theorem project_found_first_match_witness:
  "initialize_irida_api (demo_env []) ''c.conf'' = Inr demo_api
   \<and> get_projects demo_api
        (remote (demo_world [\<lparr>prj_id = IdInt 3, prj_name = ''Demo''\<rparr>,
                             \<lparr>prj_id = IdInt 7, prj_name = ''demo''\<rparr>,
                             \<lparr>prj_id = IdInt 9, prj_name = ''demo''\<rparr>]))
      = (Inr [\<lparr>prj_id = IdInt 3, prj_name = ''Demo''\<rparr>,
              \<lparr>prj_id = IdInt 7, prj_name = ''demo''\<rparr>,
              \<lparr>prj_id = IdInt 9, prj_name = ''demo''\<rparr>],
         \<lparr>listing = [\<lparr>prj_id = IdInt 3, prj_name = ''Demo''\<rparr>,
                     \<lparr>prj_id = IdInt 7, prj_name = ''demo''\<rparr>,
                     \<lparr>prj_id = IdInt 9, prj_name = ''demo''\<rparr>], next_id = 100\<rparr>)
   \<and> (\<exists>w1. create_project (demo_env []) ''demo'' ''c.conf'' None
              (demo_world [\<lparr>prj_id = IdInt 3, prj_name = ''Demo''\<rparr>,
                           \<lparr>prj_id = IdInt 7, prj_name = ''demo''\<rparr>,
                           \<lparr>prj_id = IdInt 9, prj_name = ''demo''\<rparr>]) = (Inr (IdInt 7), w1)
          \<and> api_calls w1 = [GetProjects]
          \<and> (WARNING, Text ''Project(s) demo is existed'') \<in> set (log w1))"
proof -
  let ?L = "[\<lparr>prj_id = IdInt 3, prj_name = ''Demo''\<rparr>,
             \<lparr>prj_id = IdInt 7, prj_name = ''demo''\<rparr>,
             \<lparr>prj_id = IdInt 9, prj_name = ''demo''\<rparr>]"
  have h1: "initialize_irida_api (demo_env []) ''c.conf'' = Inr demo_api"
    by (simp add: demo_env_def)
  have h2: "get_projects demo_api (remote (demo_world ?L))
              = (Inr ?L, \<lparr>listing = ?L, next_id = 100\<rparr>)"
    by (simp add: demo_api_def demo_world_def)
  have h3: "\<exists>q \<in> set ?L. prj_name q = ''demo''" by simp
  from project_found_first_match[OF h1 h2 h3, of None "\<lparr>listing = ?L, next_id = 100\<rparr>"]
  obtain pre p post w1 where
    a: "?L = pre @ p # post" "prj_name p = ''demo''" "\<forall>q \<in> set pre. prj_name q \<noteq> ''demo''"
    and b: "create_project (demo_env []) ''demo'' ''c.conf'' None (demo_world ?L) = (Inr (prj_id p), w1)"
      "api_calls w1 = api_calls (demo_world ?L) @ [GetProjects]"
      "(WARNING, Text (''Project(s) '' @ ''demo'' @ '' is existed'')) \<in> set (log w1)"
    by blast
  have "prj_id p = IdInt 7"
    using a by (auto simp: Cons_eq_append_conv)
  with b h1 h2 show ?thesis by (simp add: demo_world_def)
qed



section \<open>Sorting\<close>

text \<open>
  C6. On names whose sort key is an integer (the last \<^verbatim>\<open>_\<close>-separated piece of the part
  before the first stripped token), \<^verbatim>\<open>sorted\<close> succeeds and returns a rearrangement
  of the names in which a name with key \<open>m\<close> stands strictly before every name with a key
  \<open>n > m\<close>; sorting the result again gives the result back.
\<close>

theorem sort_total_order:
  assumes ok: "\<forall>s \<in> set names. \<exists>k. sort_key_of re s = Inr k"
  shows "\<exists>out. py_sorted re names = Inr out
           \<and> mset out = mset names
           \<and> (\<forall>i j m n. i < length out \<and> j < length out
                  \<and> sort_key_of re (out ! i) = Inr m \<and> sort_key_of re (out ! j) = Inr n
                  \<and> m < n \<longrightarrow> i < j)
           \<and> py_sorted re out = Inr out"
proof -
  define out where "out = sort_key (key_val re) names"
  have a: "py_sorted re names = Inr out"
    unfolding out_def by (rule py_sorted_ok[OF ok])
  have b: "mset out = mset names" by (simp add: out_def)
  have srt: "sorted (map (key_val re) out)" by (simp add: out_def)
  have c: "i < j" if "i < length out" "j < length out"
    "sort_key_of re (out ! i) = Inr m" "sort_key_of re (out ! j) = Inr n" "m < n" for i j m n
  proof (rule ccontr)
    assume "\<not> i < j"
    then have "j \<le> i" by simp
    with srt that(1) have "map (key_val re) out ! j \<le> map (key_val re) out ! i"
      by (simp add: sorted_iff_nth_mono del: nth_map)
    with that show False by (simp add: key_val_def)
  qed
  have "set out = set names" by (simp add: out_def)
  with ok have ok': "\<forall>s \<in> set out. \<exists>k. sort_key_of re s = Inr k" by simp
  have d: "py_sorted re out = Inr out"
    using py_sorted_ok[OF ok'] srt by (simp add: sort_key_id_if_sorted)
  from a b c d show ?thesis by blast
qed

theorem sort_total_order_witness:
  "list_all (\<lambda>s. \<exists>k. sort_key_of pe_regex s = Inr k)
     [''run_10_S1_R1_001.fastq.gz'', ''run_2_S2_R1_001.fastq.gz'']
   \<and> sort_key_of pe_regex ''run_2_S2_R1_001.fastq.gz'' = Inr 2
   \<and> sort_key_of pe_regex ''run_10_S1_R1_001.fastq.gz'' = Inr 10
   \<and> py_sorted pe_regex [''run_10_S1_R1_001.fastq.gz'', ''run_2_S2_R1_001.fastq.gz'']
       = Inr [''run_2_S2_R1_001.fastq.gz'', ''run_10_S1_R1_001.fastq.gz'']
   \<and> py_sorted pe_regex [''run_2_S2_R1_001.fastq.gz'', ''run_10_S1_R1_001.fastq.gz'']
       = Inr [''run_2_S2_R1_001.fastq.gz'', ''run_10_S1_R1_001.fastq.gz'']"
proof -
  define a where "a = ''run_10_S1_R1_001.fastq.gz''"
  define b where "b = ''run_2_S2_R1_001.fastq.gz''"
  have ka: "sort_key_of pe_regex a = Inr 10" unfolding a_def by (rule sort_key_of_10)
  have kb: "sort_key_of pe_regex b = Inr 2" unfolding b_def by (rule sort_key_of_2)
  have h: "\<forall>s \<in> set [a, b]. \<exists>k. sort_key_of pe_regex s = Inr k"
    by (simp add: ka kb)
  from sort_total_order[OF h] obtain out where
    o: "py_sorted pe_regex [a, b] = Inr out" "mset out = mset [a, b]"
    and ord: "\<And>i j m n. i < length out \<Longrightarrow> j < length out \<Longrightarrow>
             sort_key_of pe_regex (out ! i) = Inr m \<Longrightarrow> sort_key_of pe_regex (out ! j) = Inr n \<Longrightarrow>
             m < n \<Longrightarrow> i < j"
    and idem: "py_sorted pe_regex out = Inr out"
    by blast
  have "length out = 2" using mset_eq_length[OF o(2)] by simp
  then obtain x y where xy: "out = [x, y]"
    by (cases out; cases "tl out") auto
  with o(2) have "(x = a \<and> y = b) \<or> (x = b \<and> y = a)"
    by (auto simp: add_eq_conv_ex)
  moreover have False if "x = a" "y = b"
    using ord[of 1 0 2 10] xy that ka kb by simp
  ultimately have "out = [b, a]" using xy by blast
  with o idem h[folded list_all_iff] ka kb show ?thesis unfolding a_def b_def by blast
qed

section \<open>A name that cannot be paired\<close>

text \<open>
  C1, as stated, fails: \<^verbatim>\<open>SampleList.csv\<close> is opened and its two header lines are written
  before the loop looks at any name, so a run that ends with the invalid-file-name error
  leaves a manifest behind. Here the directory had no manifest; after the run it has one
  with the header lines and the row of the name before \<^verbatim>\<open>weird.file.gz\<close>.
\<close>

theorem partial_manifest_counterexample:
  "sample_list (demo_world []) = None
   \<and> prepare (demo_env [''X_S1_R1_001.fastq.gz'', ''weird.file.gz'']) ''/data/run'' ''*.gz''
        (Some ''7'') None True False ''c.conf'' (demo_world [])
     = (Inl (InvalidFileName ''weird.file.gz''),
        (demo_world [])\<lparr>sample_list :=
           Some (''[Data]'' @ [newline]
                 @ ''Sample_Name,Project_ID,File_Forward,File_Reverse'' @ [newline]
                 @ ''X, 7, X_S1_R1_001.fastq.gz, X_S1_R2_001.fastq.gz'' @ [newline])\<rparr>)"
proof -
  have "pairing_result True [''X_S1_R1_001.fastq.gz'', ''weird.file.gz'']
          = Inl (InvalidFileName ''weird.file.gz'')"
    using weird_unpaired x_paired by (simp add: pairing_result_def pairs_ok_pe)
  moreover have "written_records True ''7'' [''X_S1_R1_001.fastq.gz'', ''weird.file.gz'']
          = [record_of True ''7'' ''X_S1_R1_001.fastq.gz'']"
    using weird_unpaired x_paired by (simp add: written_records_def pairs_ok_pe)
  ultimately show ?thesis
    by (simp add: prepare_resolved[OF resolve_pid_given demo_scan_unsorted demo_open]
        x_record manifest_text_def manifest_row_def row_text_def header_def)
      (simp add: demo_world_def)
qed

text \<open>
  C1, amended. In paired-end mode, when the project identifier is resolved, the scan (and
  the sort, if asked for) succeeds, the file can be opened, and some name contains neither
  \<^verbatim>\<open>_R1_\<close> nor \<^verbatim>\<open>_R1.non_host.fastq.gz\<close>, the run ends with the invalid-file-name
  error for the first such name, and the manifest then holds the header lines and the
  rows of the names before that one.
\<close>

theorem unpaired_name_aborts_after_header:
  assumes res: "resolve_pid env path pid name config w = (Inr i, w1)"
    and scan: "sorted_fastq_names env path pattern True do_sort = Inr names"
    and opn: "open_error env = None"
    and bad: "\<exists>n \<in> set names. \<not> py_in ''_R1_'' n \<and> \<not> py_in ''_R1.non_host.fastq.gz'' n"
  shows "\<exists>pre bad post.
           names = pre @ bad # post
           \<and> (\<forall>n \<in> set pre. py_in ''_R1_'' n \<or> py_in ''_R1.non_host.fastq.gz'' n)
           \<and> \<not> py_in ''_R1_'' bad \<and> \<not> py_in ''_R1.non_host.fastq.gz'' bad
           \<and> prepare env path pattern pid name True do_sort config w =
               (Inl (InvalidFileName bad),
                w1\<lparr>sample_list :=
                     Some (header @ concat (map manifest_row
                                              (map (record_of True (py_str i)) pre)))\<rparr>)"
proof -
  from bad have "\<exists>n \<in> set names. \<not> pairs_ok True n" by (simp add: pairs_ok_pe)
  then obtain pre b post where
    d: "names = pre @ b # post" "\<not> pairs_ok True b" "\<forall>n \<in> set pre. \<not> \<not> pairs_ok True n"
    using split_list_first_prop[of names "\<lambda>n. \<not> pairs_ok True n"] by blast
  then have pre: "\<forall>n \<in> set pre. pairs_ok True n" by simp
  have tw: "takeWhile (pairs_ok True) names = pre"
    using d(1,2) pre by (simp add: takeWhile_append2)
  have dw: "dropWhile (pairs_ok True) names = b # post"
    using d(1,2) pre by (simp add: dropWhile_append2)
  have "prepare env path pattern pid name True do_sort config w =
          (Inl (InvalidFileName b),
           w1\<lparr>sample_list :=
                Some (header @ concat (map manifest_row (map (record_of True (py_str i)) pre)))\<rparr>)"
    by (simp add: prepare_resolved[OF res scan opn] pairing_result_def written_records_def
        tw dw manifest_text_def)
  with d(1,2) pre show ?thesis by (simp only: pairs_ok_pe) blast
qed

theorem unpaired_name_aborts_after_header_witness:
  "sorted_fastq_names (demo_env [''X_S1_R1_001.fastq.gz'', ''weird.file.gz'']) ''/data/run'' ''*.gz''
       True False = Inr [''X_S1_R1_001.fastq.gz'', ''weird.file.gz'']
   \<and> (\<exists>n \<in> set [''X_S1_R1_001.fastq.gz'', ''weird.file.gz''].
         \<not> py_in ''_R1_'' n \<and> \<not> py_in ''_R1.non_host.fastq.gz'' n)
   \<and> fst (prepare (demo_env [''X_S1_R1_001.fastq.gz'', ''weird.file.gz'']) ''/data/run'' ''*.gz''
            (Some ''7'') None True False ''c.conf'' (demo_world []))
       = Inl (InvalidFileName ''weird.file.gz'')
   \<and> sample_list (snd (prepare (demo_env [''X_S1_R1_001.fastq.gz'', ''weird.file.gz''])
            ''/data/run'' ''*.gz'' (Some ''7'') None True False ''c.conf'' (demo_world [])))
       = Some (header @ manifest_row (record_of True ''7'' ''X_S1_R1_001.fastq.gz''))"
proof -
  define x where "x = ''X_S1_R1_001.fastq.gz''"
  define y where "y = ''weird.file.gz''"
  have px: "py_in ''_R1_'' x" unfolding x_def by (rule x_paired)
  have py: "\<not> py_in ''_R1_'' y" "\<not> py_in ''_R1.non_host.fastq.gz'' y"
    unfolding y_def using weird_unpaired by blast+
  have h4: "\<exists>n \<in> set [x, y]. \<not> py_in ''_R1_'' n \<and> \<not> py_in ''_R1.non_host.fastq.gz'' n"
    using py by simp
  define P where "P = prepare (demo_env [x, y]) ''/data/run'' ''*.gz'' (Some ''7'') None True False
      ''c.conf'' (demo_world [])"
  from unpaired_name_aborts_after_header[OF resolve_pid_given[of _ _ "''7''" None "''c.conf''"
        "demo_world []"] demo_scan_unsorted[of _ "''/data/run''" "''*.gz''"] demo_open h4]
  obtain pre b post where
    d: "[x, y] = pre @ b # post" "\<forall>n \<in> set pre. py_in ''_R1_'' n \<or> py_in ''_R1.non_host.fastq.gz'' n"
      "\<not> py_in ''_R1_'' b"
    and r: "P = (Inl (InvalidFileName b),
                (demo_world [])\<lparr>sample_list :=
                     Some (header @ concat (map manifest_row
                              (map (record_of True (py_str (IdStr ''7''))) pre)))\<rparr>)"
    unfolding P_def by blast
  from d px py have "pre = [x] \<and> b = y"
    by (cases pre; cases "tl pre") (auto simp: Cons_eq_append_conv)
  with r have "fst P = Inl (InvalidFileName y)"
    "sample_list (snd P) = Some (header @ manifest_row (record_of True ''7'' x))"
    by simp_all
  with h4 demo_scan_unsorted[of "[x, y]" "''/data/run''" "''*.gz''" True]
  show ?thesis unfolding P_def x_def y_def by blast
qed

section \<open>The sort scenario\<close>

text \<open>
  C2, as stated, fails: on \<^verbatim>\<open>A_S10_R1_001.fastq.gz\<close> the part before the first stripped
  token (\<^verbatim>\<open>_S10\<close>) is \<^verbatim>\<open>A\<close>, its last \<^verbatim>\<open>_\<close>-separated piece is \<^verbatim>\<open>A\<close>, and
  \<^verbatim>\<open>int("A")\<close> raises. The run ends there; no manifest is opened.
\<close>

theorem sort_scenario_counterexample:
  "prepare (demo_env [''A_S10_R1_001.fastq.gz'', ''A_S2_R1_001.fastq.gz'']) ''/data/run''
     ''*_R1_001.fastq.gz'' (Some ''7'') None True True ''c.conf'' (demo_world [])
   = (Inl (InvalidLiteral ''A''), demo_world [])"
  by (simp add: prepare_cases resolve_pid_given sorted_fastq_names_def demo_env_def
      active_regex_def py_sorted_S10_S2)

text \<open>
  C2, amended. With sort requested in paired-end mode, the names
  \<^verbatim>\<open>A_S10_R1_001.fastq.gz\<close>, \<^verbatim>\<open>A_S2_R1_001.fastq.gz\<close> end the run with the error of
  \<^verbatim>\<open>int("A")\<close> before the manifest is opened. Names whose sample identifier ends in a
  number, as \<^verbatim>\<open>A_10_S1_R1_001.fastq.gz\<close> and \<^verbatim>\<open>A_2_S2_R1_001.fastq.gz\<close>, are sorted by
  that number: the run succeeds and the row of the \<^verbatim>\<open>A_2\<close> file stands before the row of
  the \<^verbatim>\<open>A_10\<close> file.
\<close>

theorem sort_key_is_sample_suffix:
  assumes res: "resolve_pid env path pid name config w = (Inr i, w1)"
  shows "(rglob env path pattern = Inr [''A_S10_R1_001.fastq.gz'', ''A_S2_R1_001.fastq.gz'']
            \<longrightarrow> prepare env path pattern pid name True True config w
                  = (Inl (InvalidLiteral ''A''), w1))
       \<and> (rglob env path pattern = Inr [''A_10_S1_R1_001.fastq.gz'', ''A_2_S2_R1_001.fastq.gz'']
            \<and> open_error env = None
            \<longrightarrow> prepare env path pattern pid name True True config w
                  = (Inr (),
                     w1\<lparr>sample_list := Some (manifest_text
                       [\<lparr>sample_id = ''A_2'', project_id = py_str i,
                         forward_file = ''A_2_S2_R1_001.fastq.gz'',
                         reverse_file = ''A_2_S2_R2_001.fastq.gz''\<rparr>,
                        \<lparr>sample_id = ''A_10'', project_id = py_str i,
                         forward_file = ''A_10_S1_R1_001.fastq.gz'',
                         reverse_file = ''A_10_S1_R2_001.fastq.gz''\<rparr>])\<rparr>))"
proof (intro conjI impI)
  assume "rglob env path pattern = Inr [''A_S10_R1_001.fastq.gz'', ''A_S2_R1_001.fastq.gz'']"
  then have "sorted_fastq_names env path pattern True True = Inl (InvalidLiteral ''A'')"
    by (simp add: sorted_fastq_names_def active_pattern_def active_regex_def py_sorted_S10_S2)
  then show "prepare env path pattern pid name True True config w
                  = (Inl (InvalidLiteral ''A''), w1)"
    by (simp add: prepare_cases res)
next
  assume a: "rglob env path pattern = Inr [''A_10_S1_R1_001.fastq.gz'', ''A_2_S2_R1_001.fastq.gz'']
            \<and> open_error env = None"
  then have s: "sorted_fastq_names env path pattern True True
             = Inr [''A_2_S2_R1_001.fastq.gz'', ''A_10_S1_R1_001.fastq.gz'']"
    by (simp add: sorted_fastq_names_def active_pattern_def active_regex_def py_sorted_A10_A2)
  from a have opn: "open_error env = None" by simp
  show "prepare env path pattern pid name True True config w
                  = (Inr (),
                     w1\<lparr>sample_list := Some (manifest_text
                       [\<lparr>sample_id = ''A_2'', project_id = py_str i,
                         forward_file = ''A_2_S2_R1_001.fastq.gz'',
                         reverse_file = ''A_2_S2_R2_001.fastq.gz''\<rparr>,
                        \<lparr>sample_id = ''A_10'', project_id = py_str i,
                         forward_file = ''A_10_S1_R1_001.fastq.gz'',
                         reverse_file = ''A_10_S1_R2_001.fastq.gz''\<rparr>])\<rparr>)"
    by (simp only: prepare_resolved[OF res s opn] records_A2_A10 pairing_A2_A10)
qed

theorem sort_key_is_sample_suffix_witness:
  "rglob (demo_env [''A_S10_R1_001.fastq.gz'', ''A_S2_R1_001.fastq.gz'']) ''/data/run''
       ''*_R1_001.fastq.gz'' = Inr [''A_S10_R1_001.fastq.gz'', ''A_S2_R1_001.fastq.gz'']
   \<and> fst (prepare (demo_env [''A_S10_R1_001.fastq.gz'', ''A_S2_R1_001.fastq.gz'']) ''/data/run''
       ''*_R1_001.fastq.gz'' (Some ''7'') None True True ''c.conf'' (demo_world []))
       = Inl (InvalidLiteral ''A'')
   \<and> rglob (demo_env [''A_10_S1_R1_001.fastq.gz'', ''A_2_S2_R1_001.fastq.gz'']) ''/data/run''
       ''*_R1_001.fastq.gz'' = Inr [''A_10_S1_R1_001.fastq.gz'', ''A_2_S2_R1_001.fastq.gz'']
   \<and> open_error (demo_env [''A_10_S1_R1_001.fastq.gz'', ''A_2_S2_R1_001.fastq.gz'']) = None
   \<and> fst (prepare (demo_env [''A_10_S1_R1_001.fastq.gz'', ''A_2_S2_R1_001.fastq.gz''])
       ''/data/run'' ''*_R1_001.fastq.gz'' (Some ''7'') None True True ''c.conf'' (demo_world []))
       = Inr ()"
  using
    sort_key_is_sample_suffix[OF resolve_pid_given,
      of "demo_env [''A_S10_R1_001.fastq.gz'', ''A_S2_R1_001.fastq.gz'']" "''/data/run''"
         "''*_R1_001.fastq.gz''" "''7''" None "''c.conf''" "demo_world []"]
    sort_key_is_sample_suffix[OF resolve_pid_given,
      of "demo_env [''A_10_S1_R1_001.fastq.gz'', ''A_2_S2_R1_001.fastq.gz'']" "''/data/run''"
         "''*_R1_001.fastq.gz''" "''7''" None "''c.conf''" "demo_world []"]
  by (simp add: demo_rglob demo_open)

section \<open>The project identifier of a run\<close>

text \<open>
  C7. In one run of \<^verbatim>\<open>prepare\<close> the project identifier is settled by one step, which
  comes first: it issues at most one listing request and at most one create request
  (exactly one listing request when no identifier is supplied, the API object is there
  and a project name is at hand), and it does not touch the manifest. Nothing is asked of
  the remote platform afterwards. When the scan succeeds and the file can be opened, the
  manifest is the two header lines followed, for every name up to the first one that
  cannot be paired, by the row of that name, and the second field of every row is the
  text of that one identifier; in every other case the manifest is as it was.
\<close>

theorem project_id_resolved_once:
  assumes run: "prepare env path pattern pid name pe do_sort config w = (res, w')"
  shows "\<exists>r w1 k.
           resolve_pid env path pid name config w = (r, w1)
           \<and> sample_list w1 = sample_list w
           \<and> api_calls w1 = api_calls w @ k
           \<and> (k = [] \<or> k = [GetProjects]
                \<or> (\<exists>n d. k = [GetProjects, SendProject (Project n d)]))
           \<and> (pid = None \<and> (\<exists>a. initialize_irida_api env config = Inr a)
                 \<and> (\<exists>n. name = Some n \<or> derive_project_name env path = Inr n)
               \<longrightarrow> count_list k GetProjects = 1)
           \<and> api_calls w' = api_calls w1 \<and> remote w' = remote w1 \<and> log w' = log w1
           \<and> (case r of
                 Inl e \<Rightarrow> res = Inl e \<and> sample_list w' = sample_list w
               | Inr i \<Rightarrow>
                   (case sorted_fastq_names env path pattern pe do_sort of
                      Inl e \<Rightarrow> res = Inl e \<and> sample_list w' = sample_list w
                    | Inr names \<Rightarrow>
                        (case open_error env of
                           Some e \<Rightarrow> res = Inl e \<and> sample_list w' = sample_list w
                         | None \<Rightarrow>
                             res = (case dropWhile (\<lambda>n. \<not> isl (reverse_reads pe n)) names of
                                      [] \<Rightarrow> Inr ()
                                    | n # rest \<Rightarrow> Inl (InvalidFileName n))
                             \<and> sample_list w' = Some
                                 (''[Data]'' @ [newline]
                                  @ ''Sample_Name,Project_ID,File_Forward,File_Reverse''
                                  @ [newline]
                                  @ concat
                                      (map (\<lambda>n. split0 (active_regex pe) n @ '', ''
                                                  @ py_str i @ '', '' @ n @ '', ''
                                                  @ projr (reverse_reads pe n) @ [newline])
                                         (takeWhile (\<lambda>n. \<not> isl (reverse_reads pe n))
                                            names))))))"
proof -
  obtain r w1 where rp: "resolve_pid env path pid name config w = (r, w1)"
    by (cases "resolve_pid env path pid name config w")
  from resolve_pid_frame[OF rp] obtain k where
    f: "sample_list w1 = sample_list w" "api_calls w1 = api_calls w @ k"
      "k = [] \<or> k = [GetProjects] \<or> (\<exists>n d. k = [GetProjects, SendProject (Project n d)])"
    by blast
  have once: "count_list k GetProjects = 1"
    if "pid = None" "initialize_irida_api env config = Inr a"
      "name = Some n \<or> derive_project_name env path = Inr n" for a n
  proof -
    from that(1,3) obtain w0 m where
      "resolve_pid env path pid name config w = create_project env m config None w0"
      "api_calls w0 = api_calls w"
      by (cases name) (auto simp: resolve_pid_def logging_def)
    with create_project_calls[OF that(2), of m None w0] rp f(2)
    show ?thesis by auto
  qed
  have after: "api_calls w' = api_calls w1 \<and> remote w' = remote w1 \<and> log w' = log w1"
    using run rp by (auto simp: prepare_cases split: sum.splits option.splits)
  have rows: "(case r of
                 Inl e \<Rightarrow> res = Inl e \<and> sample_list w' = sample_list w
               | Inr i \<Rightarrow>
                   (case sorted_fastq_names env path pattern pe do_sort of
                      Inl e \<Rightarrow> res = Inl e \<and> sample_list w' = sample_list w
                    | Inr names \<Rightarrow>
                        (case open_error env of
                           Some e \<Rightarrow> res = Inl e \<and> sample_list w' = sample_list w
                         | None \<Rightarrow>
                             res = (case dropWhile (\<lambda>n. \<not> isl (reverse_reads pe n)) names of
                                      [] \<Rightarrow> Inr ()
                                    | n # rest \<Rightarrow> Inl (InvalidFileName n))
                             \<and> sample_list w' = Some
                                 (''[Data]'' @ [newline]
                                  @ ''Sample_Name,Project_ID,File_Forward,File_Reverse''
                                  @ [newline]
                                  @ concat
                                      (map (\<lambda>n. split0 (active_regex pe) n @ '', ''
                                                  @ py_str i @ '', '' @ n @ '', ''
                                                  @ projr (reverse_reads pe n) @ [newline])
                                         (takeWhile (\<lambda>n. \<not> isl (reverse_reads pe n))
                                            names))))))"
    using run rp f(1)
    unfolding prepare_cases manifest_text_written pairing_result_isl
    by (auto split: sum.splits option.splits)
  from rp f once after rows show ?thesis by blast
qed

theorem project_id_resolved_once_witness:
  "fst (prepare (demo_env [''A.fastq.gz'', ''B.fastq.gz'']) ''/data/run'' ''*_R1_001.fastq.gz''
          None (Some ''demo'') False False ''c.conf'' (demo_world [])) = Inr ()
   \<and> initialize_irida_api (demo_env [''A.fastq.gz'', ''B.fastq.gz'']) ''c.conf'' = Inr demo_api
   \<and> count_list (api_calls (snd (prepare (demo_env [''A.fastq.gz'', ''B.fastq.gz'']) ''/data/run''
          ''*_R1_001.fastq.gz'' None (Some ''demo'') False False ''c.conf'' (demo_world []))))
        GetProjects = 1
   \<and> sample_list (snd (prepare (demo_env [''A.fastq.gz'', ''B.fastq.gz'']) ''/data/run''
          ''*_R1_001.fastq.gz'' None (Some ''demo'') False False ''c.conf'' (demo_world [])))
       = Some (''[Data]'' @ [newline]
               @ ''Sample_Name,Project_ID,File_Forward,File_Reverse'' @ [newline]
               @ ''A, 100, A.fastq.gz, '' @ [newline]
               @ ''B, 100, B.fastq.gz, '' @ [newline])"
proof -
  define E where "E = demo_env [''A.fastq.gz'', ''B.fastq.gz'']"
  define W where "W = snd (prepare E ''/data/run'' ''*_R1_001.fastq.gz''
          None (Some ''demo'') False False ''c.conf'' (demo_world []))"
  have run: "prepare E ''/data/run'' ''*_R1_001.fastq.gz''
          None (Some ''demo'') False False ''c.conf'' (demo_world []) = (Inr (), W)"
    unfolding W_def E_def by (simp add: demo_run)
  have init: "initialize_irida_api E ''c.conf'' = Inr demo_api"
    by (simp add: E_def demo_env_def)
  have rp: "resolve_pid E ''/data/run'' None (Some ''demo'') ''c.conf'' (demo_world [])
     = (Inr (IdInt 100), demo_created)"
    unfolding E_def by (rule demo_resolve)
  have sc: "sorted_fastq_names E ''/data/run'' ''*_R1_001.fastq.gz'' False False
     = Inr [''A.fastq.gz'', ''B.fastq.gz'']"
    unfolding E_def by (rule demo_scan_unsorted)
  have op: "open_error E = None" unfolding E_def by (rule demo_open)
  have p100: "py_str (IdInt 100) = ''100''" by (simp add: digit_char_def digits_def)
  from project_id_resolved_once[OF run] obtain r w1 k where
    rp': "resolve_pid E ''/data/run'' None (Some ''demo'') ''c.conf'' (demo_world []) = (r, w1)"
    and k: "api_calls w1 = api_calls (demo_world []) @ k"
    and once: "(None::string option) = None \<and> (\<exists>a. initialize_irida_api E ''c.conf'' = Inr a)
                 \<and> (\<exists>n. Some ''demo'' = Some n \<or> derive_project_name E ''/data/run'' = Inr n)
               \<longrightarrow> count_list k GetProjects = 1"
    and aft: "api_calls W = api_calls w1"
    and rows: "(case r of
                 Inl e \<Rightarrow> (Inr () :: py_error + unit) = Inl e
                          \<and> sample_list W = sample_list (demo_world [])
               | Inr i \<Rightarrow>
                   (case sorted_fastq_names E ''/data/run'' ''*_R1_001.fastq.gz'' False False of
                      Inl e \<Rightarrow> (Inr () :: py_error + unit) = Inl e
                               \<and> sample_list W = sample_list (demo_world [])
                    | Inr names \<Rightarrow>
                        (case open_error E of
                           Some e \<Rightarrow> (Inr () :: py_error + unit) = Inl e
                                     \<and> sample_list W = sample_list (demo_world [])
                         | None \<Rightarrow>
                             (Inr () :: py_error + unit)
                               = (case dropWhile (\<lambda>n. \<not> isl (reverse_reads False n)) names of
                                      [] \<Rightarrow> Inr ()
                                    | n # rest \<Rightarrow> Inl (InvalidFileName n))
                             \<and> sample_list W = Some
                                 (''[Data]'' @ [newline]
                                  @ ''Sample_Name,Project_ID,File_Forward,File_Reverse''
                                  @ [newline]
                                  @ concat
                                      (map (\<lambda>n. split0 (active_regex False) n @ '', ''
                                                  @ py_str i @ '', '' @ n @ '', ''
                                                  @ projr (reverse_reads False n) @ [newline])
                                         (takeWhile (\<lambda>n. \<not> isl (reverse_reads False n))
                                            names))))))"
    by blast
  from rp rp' have rw: "r = Inr (IdInt 100)" "w1 = demo_created" by simp_all
  from once init have "count_list k GetProjects = 1" by blast
  moreover from k have "api_calls w1 = k" by (simp add: demo_world_def)
  ultimately have c: "count_list (api_calls W) GetProjects = 1" using aft by simp
  from rows[unfolded rw sc op sum.case option.case p100] have "sample_list W = Some
       (''[Data]'' @ [newline]
        @ ''Sample_Name,Project_ID,File_Forward,File_Reverse'' @ [newline]
        @ concat (map (\<lambda>n. split0 (active_regex False) n @ '', '' @ ''100'' @ '', '' @ n @ '', ''
                             @ projr (reverse_reads False n) @ [newline])
                    (takeWhile (\<lambda>n. \<not> isl (reverse_reads False n))
                       [''A.fastq.gz'', ''B.fastq.gz''])))"
    by (rule conjunct2)
  then have t: "sample_list W = Some (''[Data]'' @ [newline]
               @ ''Sample_Name,Project_ID,File_Forward,File_Reverse'' @ [newline]
               @ ''A, 100, A.fastq.gz, '' @ [newline]
               @ ''B, 100, B.fastq.gz, '' @ [newline])"
    unfolding rows_A_B by simp
  have f: "fst (prepare E ''/data/run'' ''*_R1_001.fastq.gz''
          None (Some ''demo'') False False ''c.conf'' (demo_world [])) = Inr ()"
    using run by simp
  show ?thesis
    unfolding E_def[symmetric] W_def[symmetric] by (intro conjI) (rule f init c t)+
qed

section \<open>Single-end mode\<close>

text \<open>
  C9. The pattern is \<^verbatim>\<open>*.fastq.gz\<close> whatever the caller gave and the reverse file is
  empty (\<open>single_end_run\<close>), but the sample identifier is not the part of the name before
  its \<^verbatim>\<open>.fastq\<close> or \<^verbatim>\<open>.fq\<close> extension. The dots of the pattern \<^verbatim>\<open>.fastq|.fq.\<close> of
  line 172 are not escaped and match any character: for \<^verbatim>\<open>my_fastq_run.fastq.gz\<close> the
  run writes the sample identifier \<^verbatim>\<open>my\<close>, cut at \<^verbatim>\<open>_fastq\<close>, and for
  \<^verbatim>\<open>Sfq_1.fastq.gz\<close> the identifier is empty, since \<^verbatim>\<open>Sfq_\<close> matches at the start.
\<close>

theorem unescaped_dot_sample_id:
  "split0 se_regex ''my_fastq_run.fastq.gz'' = ''my''
   \<and> split0 se_regex ''Sfq_1.fastq.gz'' = []
   \<and> prepare (demo_env [''my_fastq_run.fastq.gz'']) ''/data/run'' ''*.fastq.gz'' (Some ''7'') None
        False False ''c.conf'' (demo_world [])
      = (Inr (), (demo_world [])\<lparr>sample_list := Some
           (''[Data]'' @ [newline]
            @ ''Sample_Name,Project_ID,File_Forward,File_Reverse'' @ [newline]
            @ ''my, 7, my_fastq_run.fastq.gz, '' @ [newline])\<rparr>)"
proof (intro conjI)
  show my: "split0 se_regex ''my_fastq_run.fastq.gz'' = ''my''"
    by (simp add: se_regex_def match_here_def lits_def newline_def)
  show "split0 se_regex ''Sfq_1.fastq.gz'' = []"
    by (simp add: se_regex_def match_here_def lits_def newline_def)
  have r: "reverse_reads False n = Inr []" for n by (simp add: reverse_reads_def)
  have a: "active_regex False = se_regex" by (simp add: active_regex_def)
  show "prepare (demo_env [''my_fastq_run.fastq.gz'']) ''/data/run'' ''*.fastq.gz'' (Some ''7'') None
        False False ''c.conf'' (demo_world [])
      = (Inr (), (demo_world [])\<lparr>sample_list := Some
           (''[Data]'' @ [newline]
            @ ''Sample_Name,Project_ID,File_Forward,File_Reverse'' @ [newline]
            @ ''my, 7, my_fastq_run.fastq.gz, '' @ [newline])\<rparr>)"
    unfolding prepare_given_exact demo_scan_unsorted demo_open r a
    by (simp add: my del: split0.simps)
qed

section \<open>An identifier supplied by the caller\<close>

text \<open>
  C10. A run with \<^verbatim>\<open>--pid\<close> asks nothing of the remote platform: its state, the list
  of requests and the log are as before, and the manifest it writes is the two header
  lines followed, for every name up to the first one that cannot be paired, by the row of
  that name with the given text as its second field. Without \<^verbatim>\<open>--pid\<close> the identifier comes from
  \<^verbatim>\<open>create_project\<close>, called with \<^verbatim>\<open>--name\<close> or, without it, with
  \<^verbatim>\<open>QIB-<last part of the path, _ turned into -\<close>\<^verbatim>\<open>>-<date>\<close>, the date being the
  six digits before \<^verbatim>\<open>_NB\<close> in the path or else today; the run then goes on as the run
  with the resolved identifier does, and ends at once when the resolution fails.
\<close>

theorem supplied_pid_bypasses_resolution:
  "prepare env path pattern (Some i) name pe do_sort config w =
     (case sorted_fastq_names env path pattern pe do_sort of
        Inl e \<Rightarrow> (Inl e, w)
      | Inr names \<Rightarrow>
          (case open_error env of
             Some e \<Rightarrow> (Inl e, w)
           | None \<Rightarrow>
               ((case dropWhile (\<lambda>n. \<not> isl (reverse_reads pe n)) names of
                   [] \<Rightarrow> Inr ()
                 | n # rest \<Rightarrow> Inl (InvalidFileName n)),
                w\<lparr>sample_list := Some
                  (''[Data]'' @ [newline]
                   @ ''Sample_Name,Project_ID,File_Forward,File_Reverse'' @ [newline]
                   @ concat (map (\<lambda>n. split0 (active_regex pe) n @ '', '' @ i @ '', '' @ n
                                        @ '', '' @ projr (reverse_reads pe n) @ [newline])
                               (takeWhile (\<lambda>n. \<not> isl (reverse_reads pe n)) names)))\<rparr>)))
   \<and> (\<forall>res w'. prepare env path pattern (Some i) name pe do_sort config w = (res, w')
       \<longrightarrow> remote w' = remote w \<and> api_calls w' = api_calls w \<and> log w' = log w)
   \<and> resolve_pid env path None (Some n) config w = create_project env n config None w
   \<and> (path_parts path \<noteq> [] \<longrightarrow>
        (\<exists>project_name.
           project_name = ''QIB-'' @ py_replace ''_'' ''-'' (last (path_parts path)) @ ''-''
             @ (case re_search run_date_regex path of
                  Some m \<Rightarrow> take 6 m
                | None \<Rightarrow> strftime_ymd (today env))
           \<and> resolve_pid env path None None config w
               = create_project env project_name config None
                   (logging INFO (Text (''Project name is: '' @ project_name)) w)))
   \<and> (\<forall>j w1. resolve_pid env path None name config w = (Inr j, w1)
        \<longrightarrow> prepare env path pattern None name pe do_sort config w
              = prepare env path pattern (Some (py_str j)) name pe do_sort config w1)
   \<and> (\<forall>e w1. resolve_pid env path None name config w = (Inl e, w1)
        \<longrightarrow> prepare env path pattern None name pe do_sort config w = (Inl e, w1))"
proof (intro conjI allI impI)
  show "prepare env path pattern (Some i) name pe do_sort config w =
     (case sorted_fastq_names env path pattern pe do_sort of
        Inl e \<Rightarrow> (Inl e, w)
      | Inr names \<Rightarrow>
          (case open_error env of
             Some e \<Rightarrow> (Inl e, w)
           | None \<Rightarrow>
               ((case dropWhile (\<lambda>n. \<not> isl (reverse_reads pe n)) names of
                   [] \<Rightarrow> Inr ()
                 | n # rest \<Rightarrow> Inl (InvalidFileName n)),
                w\<lparr>sample_list := Some
                  (''[Data]'' @ [newline]
                   @ ''Sample_Name,Project_ID,File_Forward,File_Reverse'' @ [newline]
                   @ concat (map (\<lambda>n. split0 (active_regex pe) n @ '', '' @ i @ '', '' @ n
                                        @ '', '' @ projr (reverse_reads pe n) @ [newline])
                               (takeWhile (\<lambda>n. \<not> isl (reverse_reads pe n)) names)))\<rparr>)))"
    by (rule prepare_given_exact)
next
  fix res w'
  assume "prepare env path pattern (Some i) name pe do_sort config w = (res, w')"
  then have *: "(res, w') =
     (case sorted_fastq_names env path pattern pe do_sort of
        Inl e \<Rightarrow> (Inl e, w)
      | Inr names \<Rightarrow>
          (case open_error env of
             Some e \<Rightarrow> (Inl e, w)
           | None \<Rightarrow>
               (pairing_result pe names,
                w\<lparr>sample_list := Some (manifest_text (written_records pe i names))\<rparr>)))"
    by (simp add: prepare_given)
  from * show "remote w' = remote w" by (auto split: sum.splits option.splits)
  from * show "api_calls w' = api_calls w" by (auto split: sum.splits option.splits)
  from * show "log w' = log w" by (auto split: sum.splits option.splits)
next
  show "resolve_pid env path None (Some n) config w = create_project env n config None w"
    by (simp add: resolve_pid_def)
next
  assume "path_parts path \<noteq> []"
  then show "\<exists>project_name.
           project_name = ''QIB-'' @ py_replace ''_'' ''-'' (last (path_parts path)) @ ''-''
             @ (case re_search run_date_regex path of
                  Some m \<Rightarrow> take 6 m
                | None \<Rightarrow> strftime_ymd (today env))
           \<and> resolve_pid env path None None config w
               = create_project env project_name config None
                   (logging INFO (Text (''Project name is: '' @ project_name)) w)"
    by (simp add: resolve_pid_def derive_project_name_parts)
next
  fix j w1
  assume "resolve_pid env path None name config w = (Inr j, w1)"
  then show "prepare env path pattern None name pe do_sort config w
              = prepare env path pattern (Some (py_str j)) name pe do_sort config w1"
    by (rule prepare_after_resolution)
next
  fix e w1
  assume "resolve_pid env path None name config w = (Inl e, w1)"
  then show "prepare env path pattern None name pe do_sort config w = (Inl e, w1)"
    by (simp add: prepare_cases)
qed

theorem supplied_pid_bypasses_resolution_witness:
  "prepare (demo_env [''A.fastq.gz'']) ''/data/run'' ''*.fastq.gz'' (Some ''7'') None False
          False ''c.conf'' (demo_world [])
     = (Inr (), (demo_world [])\<lparr>sample_list := Some
          (''[Data]'' @ [newline]
           @ ''Sample_Name,Project_ID,File_Forward,File_Reverse'' @ [newline]
           @ ''A, 7, A.fastq.gz, '' @ [newline])\<rparr>)
   \<and> api_calls (snd (prepare (demo_env [''A.fastq.gz'']) ''/data/run'' ''*.fastq.gz'' (Some ''7'')
          None False False ''c.conf'' (demo_world []))) = []
   \<and> remote (snd (prepare (demo_env [''A.fastq.gz'']) ''/data/run'' ''*.fastq.gz'' (Some ''7'')
          None False False ''c.conf'' (demo_world []))) = \<lparr>listing = [], next_id = 100\<rparr>
   \<and> path_parts ''/data/230101_NB501_run'' \<noteq> []
   \<and> resolve_pid (demo_env [''A.fastq.gz'']) ''/data/230101_NB501_run'' None None ''c.conf''
        (demo_world [])
      = create_project (demo_env [''A.fastq.gz'']) ''QIB-230101-NB501-run-230101'' ''c.conf'' None
          (logging INFO (Text ''Project name is: QIB-230101-NB501-run-230101'') (demo_world []))
   \<and> resolve_pid (demo_env [''A.fastq.gz'']) ''/data/run'' None (Some ''demo'') ''c.conf''
        (demo_world []) = (Inr (IdInt 100), demo_created)
   \<and> prepare (demo_env [''A.fastq.gz'']) ''/data/run'' ''*.fastq.gz'' None (Some ''demo'') False
        False ''c.conf'' (demo_world [])
      = prepare (demo_env [''A.fastq.gz'']) ''/data/run'' ''*.fastq.gz'' (Some ''100'') (Some ''demo'')
          False False ''c.conf'' demo_created"
proof -
  define E where "E = demo_env [''A.fastq.gz'']"
  define W where "W = snd (prepare E ''/data/run'' ''*.fastq.gz'' (Some ''7'') None False False
          ''c.conf'' (demo_world []))"
  note t1 = supplied_pid_bypasses_resolution[of E "''/data/run''" "''*.fastq.gz''" "''7''" None
      False False "''c.conf''" "demo_world []" "''demo''"]
  note t2 = supplied_pid_bypasses_resolution[of E "''/data/230101_NB501_run''" "''*.fastq.gz''"
      "''7''" "Some ''demo''" False False "''c.conf''" "demo_world []" "''demo''"]
  note t3 = supplied_pid_bypasses_resolution[of E "''/data/run''" "''*.fastq.gz''" "''7''"
      "Some ''demo''" False False "''c.conf''" "demo_world []" "''demo''"]
  have sc: "sorted_fastq_names E ''/data/run'' ''*.fastq.gz'' False False = Inr [''A.fastq.gz'']"
    unfolding E_def by (rule demo_scan_unsorted)
  have op: "open_error E = None" unfolding E_def by (rule demo_open)
  have dw: "dropWhile (\<lambda>n. \<not> isl (reverse_reads False n)) [''A.fastq.gz''] = []"
    by (simp add: reverse_reads_def)
  have c1: "prepare E ''/data/run'' ''*.fastq.gz'' (Some ''7'') None False False ''c.conf''
      (demo_world [])
     = (Inr (), (demo_world [])\<lparr>sample_list := Some
          (''[Data]'' @ [newline]
           @ ''Sample_Name,Project_ID,File_Forward,File_Reverse'' @ [newline]
           @ ''A, 7, A.fastq.gz, '' @ [newline])\<rparr>)"
    using t1[THEN conjunct1, unfolded sc op sum.case option.case dw list.case rows_A]
    by simp
  then have run: "prepare E ''/data/run'' ''*.fastq.gz'' (Some ''7'') None False False ''c.conf''
      (demo_world []) = (Inr (), W)"
    unfolding W_def by simp
  from t1[THEN conjunct2, THEN conjunct1, rule_format, OF run]
  have a: "remote W = remote (demo_world [])" "api_calls W = api_calls (demo_world [])"
    by simp_all
  have c2: "api_calls W = []" using a(2) by (simp add: demo_world_def)
  have c3: "remote W = \<lparr>listing = [], next_id = 100\<rparr>" using a(1) by (simp add: demo_world_def)
  have c4: "path_parts ''/data/230101_NB501_run'' \<noteq> []" by (simp add: demo_parts)
  from t2[THEN conjunct2, THEN conjunct2, THEN conjunct2, THEN conjunct1, rule_format, OF c4]
  obtain pn where pn: "pn = ''QIB-'' @ py_replace ''_'' ''-'' (last (path_parts ''/data/230101_NB501_run'')) @ ''-''
     @ (case re_search run_date_regex ''/data/230101_NB501_run'' of
          Some m \<Rightarrow> take 6 m
        | None \<Rightarrow> strftime_ymd (today E))"
    and rp: "resolve_pid E ''/data/230101_NB501_run'' None None ''c.conf'' (demo_world [])
      = create_project E pn ''c.conf'' None (logging INFO (Text (''Project name is: '' @ pn)) (demo_world []))"
    by blast
  have pn': "pn = ''QIB-230101-NB501-run-230101''" unfolding pn by (rule demo_derived_name)
  have c5: "resolve_pid E ''/data/230101_NB501_run'' None None ''c.conf'' (demo_world [])
      = create_project E ''QIB-230101-NB501-run-230101'' ''c.conf'' None
          (logging INFO (Text ''Project name is: QIB-230101-NB501-run-230101'') (demo_world []))"
    unfolding rp pn' by simp
  have c6: "resolve_pid E ''/data/run'' None (Some ''demo'') ''c.conf'' (demo_world [])
      = (Inr (IdInt 100), demo_created)" unfolding E_def by (rule demo_resolve)
  from t3[THEN conjunct2, THEN conjunct2, THEN conjunct2, THEN conjunct2, THEN conjunct1,
      rule_format, OF c6]
  have c7: "prepare E ''/data/run'' ''*.fastq.gz'' None (Some ''demo'') False
        False ''c.conf'' (demo_world [])
      = prepare E ''/data/run'' ''*.fastq.gz'' (Some ''100'') (Some ''demo'')
          False False ''c.conf'' demo_created"
    by (simp add: digit_char_def digits_def)
  show ?thesis
    unfolding E_def[symmetric] W_def[symmetric]
    by (intro conjI) (rule c1 c2 c3 c4 c5 c6 c7)+
qed

section \<open>The manifest text\<close>

text \<open>
  C8, as stated, fails: fields are written as they are, so a field that holds the
  separator cannot be told from two fields. A single-end run on the file
  \<^verbatim>\<open>a, a.fastq.gz\<close> with the identifier \<^verbatim>\<open>7\<close> and a run on \<^verbatim>\<open>a.fastq.gz\<close> with the
  identifier \<^verbatim>\<open>a, 7, a\<close> write the same manifest from different records, and reading the
  first manifest does not give its record back.
\<close>

theorem manifest_round_trip_counterexample:
  "sample_list (snd (prepare (demo_env [''a, a.fastq.gz'']) ''/data/run'' ''*.fastq.gz''
       (Some ''7'') None False False ''c.conf'' (demo_world [])))
     = Some (manifest_text [\<lparr>sample_id = ''a, a'', project_id = ''7'',
                             forward_file = ''a, a.fastq.gz'', reverse_file = []\<rparr>])
   \<and> sample_list (snd (prepare (demo_env [''a.fastq.gz'']) ''/data/run'' ''*.fastq.gz''
       (Some ''a, 7, a'') None False False ''c.conf'' (demo_world [])))
     = Some (manifest_text [\<lparr>sample_id = ''a'', project_id = ''a, 7, a'',
                             forward_file = ''a.fastq.gz'', reverse_file = []\<rparr>])
   \<and> manifest_text [\<lparr>sample_id = ''a, a'', project_id = ''7'',
                      forward_file = ''a, a.fastq.gz'', reverse_file = []\<rparr>]
     = manifest_text [\<lparr>sample_id = ''a'', project_id = ''a, 7, a'',
                        forward_file = ''a.fastq.gz'', reverse_file = []\<rparr>]
   \<and> \<lparr>sample_id = ''a, a'', project_id = ''7'',
        forward_file = ''a, a.fastq.gz'', reverse_file = []\<rparr>
     \<noteq> \<lparr>sample_id = ''a'', project_id = ''a, 7, a'',
          forward_file = ''a.fastq.gz'', reverse_file = []\<rparr>
   \<and> parse_manifest (manifest_text [\<lparr>sample_id = ''a, a'', project_id = ''7'',
                      forward_file = ''a, a.fastq.gz'', reverse_file = []\<rparr>])
     \<noteq> Some [\<lparr>sample_id = ''a, a'', project_id = ''7'',
                      forward_file = ''a, a.fastq.gz'', reverse_file = []\<rparr>]"
proof (intro conjI)
  show "sample_list (snd (prepare (demo_env [''a, a.fastq.gz'']) ''/data/run'' ''*.fastq.gz''
       (Some ''7'') None False False ''c.conf'' (demo_world [])))
     = Some (manifest_text [\<lparr>sample_id = ''a, a'', project_id = ''7'',
                             forward_file = ''a, a.fastq.gz'', reverse_file = []\<rparr>])"
    unfolding comma_run by simp
  show "sample_list (snd (prepare (demo_env [''a.fastq.gz'']) ''/data/run'' ''*.fastq.gz''
       (Some ''a, 7, a'') None False False ''c.conf'' (demo_world [])))
     = Some (manifest_text [\<lparr>sample_id = ''a'', project_id = ''a, 7, a'',
                             forward_file = ''a.fastq.gz'', reverse_file = []\<rparr>])"
    unfolding comma_pid_run by simp
  show "manifest_text [\<lparr>sample_id = ''a, a'', project_id = ''7'',
                      forward_file = ''a, a.fastq.gz'', reverse_file = []\<rparr>]
     = manifest_text [\<lparr>sample_id = ''a'', project_id = ''a, 7, a'',
                        forward_file = ''a.fastq.gz'', reverse_file = []\<rparr>]"
    by (simp add: manifest_text_def manifest_row_def row_text_def)
  show "\<lparr>sample_id = ''a, a'', project_id = ''7'',
        forward_file = ''a, a.fastq.gz'', reverse_file = []\<rparr>
     \<noteq> \<lparr>sample_id = ''a'', project_id = ''a, 7, a'',
          forward_file = ''a.fastq.gz'', reverse_file = []\<rparr>"
    by simp
  show "parse_manifest (manifest_text [\<lparr>sample_id = ''a, a'', project_id = ''7'',
                      forward_file = ''a, a.fastq.gz'', reverse_file = []\<rparr>])
     \<noteq> Some [\<lparr>sample_id = ''a, a'', project_id = ''7'',
                      forward_file = ''a, a.fastq.gz'', reverse_file = []\<rparr>]"
    by (simp add: parse_manifest_def manifest_text_def manifest_row_def row_text_def header_def
        newline_def parse_row_def)
qed


text \<open>
  C8, amended. For every sequence of records the manifest is the section-marker line,
  the column-header line and, for every record in order, the four fields separated by a
  comma and a blank, with a newline after them; the loop of \<^verbatim>\<open>prepare\<close> writes exactly
  this text for the records of its names, with an empty reverse file in single-end mode.
  When no field holds the separator or a newline, the text has one line per record and
  reading it gives the same records in the same order.
\<close>

theorem manifest_format_round_trip:
  "manifest_text recs
     = ''[Data]'' @ [newline]
       @ ''Sample_Name,Project_ID,File_Forward,File_Reverse'' @ [newline]
       @ concat (map (\<lambda>r. sample_id r @ '', '' @ project_id r @ '', '' @ forward_file r
                          @ '', '' @ reverse_file r @ [newline]) recs)
   \<and> ((\<forall>r \<in> set recs. clean (sample_id r) \<and> clean (project_id r)
                  \<and> clean (forward_file r) \<and> clean (reverse_file r))
       \<longrightarrow> py_split newline (manifest_text recs)
             = ''[Data]'' # ''Sample_Name,Project_ID,File_Forward,File_Reverse''
                 # map (\<lambda>r. sample_id r @ '', '' @ project_id r @ '', '' @ forward_file r
                             @ '', '' @ reverse_file r) recs @ [[]]
           \<and> parse_manifest (manifest_text recs) = Some recs)
   \<and> ((\<forall>n \<in> set names. pairs_ok pe n) \<longrightarrow>
        write_rows pe pid (zip (map (split0 (active_regex pe)) names) names) header
          = (Inr (), manifest_text (map (record_of pe pid) names)))
   \<and> reverse_file (record_of False pid n) = []
   \<and> write_rows pe pid (zip (map (split0 (active_regex pe)) names) names) header
       = ((case dropWhile (\<lambda>n. \<not> isl (reverse_reads pe n)) names of
             [] \<Rightarrow> Inr ()
           | n # rest \<Rightarrow> Inl (InvalidFileName n)),
          ''[Data]'' @ [newline]
          @ ''Sample_Name,Project_ID,File_Forward,File_Reverse'' @ [newline]
          @ concat (map (\<lambda>n. split0 (active_regex pe) n @ '', '' @ pid @ '', '' @ n @ '', ''
                               @ projr (reverse_reads pe n) @ [newline])
                      (takeWhile (\<lambda>n. \<not> isl (reverse_reads pe n)) names)))"
proof (intro conjI impI)
  have "manifest_row = (\<lambda>r. sample_id r @ '', '' @ project_id r @ '', '' @ forward_file r
                                @ '', '' @ reverse_file r @ [newline])"
    by (rule ext) (simp add: manifest_row_def row_text_def)
  then show "manifest_text recs
           = ''[Data]'' @ [newline]
             @ ''Sample_Name,Project_ID,File_Forward,File_Reverse'' @ [newline]
             @ concat (map (\<lambda>r. sample_id r @ '', '' @ project_id r @ '', '' @ forward_file r
                                @ '', '' @ reverse_file r @ [newline]) recs)"
    by (simp add: manifest_text_def header_def)
next
  assume cl: "\<forall>r \<in> set recs. clean (sample_id r) \<and> clean (project_id r)
                  \<and> clean (forward_file r) \<and> clean (reverse_file r)"
  have nn: "\<forall>r \<in> set recs. newline \<notin> set (row_body r)"
    using cl row_body_no_newline by blast
  have rb: "row_body = (\<lambda>r. sample_id r @ '', '' @ project_id r @ '', '' @ forward_file r
                           @ '', '' @ reverse_file r)"
    by (rule ext) (simp add: row_body_def)
  show "py_split newline (manifest_text recs)
           = ''[Data]'' # ''Sample_Name,Project_ID,File_Forward,File_Reverse''
               # map (\<lambda>r. sample_id r @ '', '' @ project_id r @ '', '' @ forward_file r
                           @ '', '' @ reverse_file r) recs @ [[]]"
    using manifest_lines[OF nn] unfolding rb .
  have pr: "\<forall>r \<in> set recs. parse_row (row_body r) = Some r"
    using cl parse_row_body by blast
  show "parse_manifest (manifest_text recs) = Some recs"
    unfolding parse_manifest_def manifest_lines[OF nn]
    by (simp add: those_parse_rows[OF pr, unfolded map_map])
next
  assume "\<forall>n \<in> set names. pairs_ok pe n"
  then show "write_rows pe pid (zip (map (split0 (active_regex pe)) names) names) header
              = (Inr (), manifest_text (map (record_of pe pid) names))"
    by (rule write_rows_all_paired)
next
  show "reverse_file (record_of False pid n) = []"
    by (simp add: record_of_def reverse_reads_def)
next
  show "write_rows pe pid (zip (map (split0 (active_regex pe)) names) names) header
       = ((case dropWhile (\<lambda>n. \<not> isl (reverse_reads pe n)) names of
             [] \<Rightarrow> Inr ()
           | n # rest \<Rightarrow> Inl (InvalidFileName n)),
          ''[Data]'' @ [newline]
          @ ''Sample_Name,Project_ID,File_Forward,File_Reverse'' @ [newline]
          @ concat (map (\<lambda>n. split0 (active_regex pe) n @ '', '' @ pid @ '', '' @ n @ '', ''
                               @ projr (reverse_reads pe n) @ [newline])
                      (takeWhile (\<lambda>n. \<not> isl (reverse_reads pe n)) names)))"
    by (rule write_rows_exact)
qed

theorem manifest_format_round_trip_witness:
  "list_all (\<lambda>r. clean (sample_id r) \<and> clean (project_id r) \<and> clean (forward_file r)
                 \<and> clean (reverse_file r))
     [\<lparr>sample_id = ''A'', project_id = ''7'', forward_file = ''A.fastq.gz'',
       reverse_file = []\<rparr>,
      \<lparr>sample_id = ''X'', project_id = ''7'', forward_file = ''X_S1_R1_001.fastq.gz'',
       reverse_file = ''X_S1_R2_001.fastq.gz''\<rparr>]
   \<and> parse_manifest (manifest_text
         [\<lparr>sample_id = ''A'', project_id = ''7'', forward_file = ''A.fastq.gz'',
           reverse_file = []\<rparr>,
          \<lparr>sample_id = ''X'', project_id = ''7'', forward_file = ''X_S1_R1_001.fastq.gz'',
           reverse_file = ''X_S1_R2_001.fastq.gz''\<rparr>])
       = Some [\<lparr>sample_id = ''A'', project_id = ''7'', forward_file = ''A.fastq.gz'',
                reverse_file = []\<rparr>,
               \<lparr>sample_id = ''X'', project_id = ''7'', forward_file = ''X_S1_R1_001.fastq.gz'',
                reverse_file = ''X_S1_R2_001.fastq.gz''\<rparr>]
   \<and> list_all (pairs_ok True) [''X_S1_R1_001.fastq.gz'']
   \<and> write_rows True ''7'' (zip (map (split0 (active_regex True)) [''X_S1_R1_001.fastq.gz''])
         [''X_S1_R1_001.fastq.gz'']) header
       = (Inr (), manifest_text (map (record_of True ''7'') [''X_S1_R1_001.fastq.gz'']))"
proof -
  define recs where "recs = [\<lparr>sample_id = ''A'', project_id = ''7'', forward_file = ''A.fastq.gz'',
                  reverse_file = []\<rparr>,
                 \<lparr>sample_id = ''X'', project_id = ''7'', forward_file = ''X_S1_R1_001.fastq.gz'',
                  reverse_file = ''X_S1_R2_001.fastq.gz''\<rparr>]"
  have h: "\<forall>r \<in> set recs. clean (sample_id r) \<and> clean (project_id r) \<and> clean (forward_file r)
         \<and> clean (reverse_file r)"
    by (simp add: recs_def clean_def newline_def)
  have p: "\<forall>n \<in> set [''X_S1_R1_001.fastq.gz'']. pairs_ok True n"
    using x_paired by (simp add: pairs_ok_pe)
  note t = manifest_format_round_trip[of recs "[''X_S1_R1_001.fastq.gz'']" True "''7''"]
  have a: "parse_manifest (manifest_text recs) = Some recs"
    by (rule t[THEN conjunct2, THEN conjunct1, THEN mp, OF h, THEN conjunct2])
  have b: "write_rows True ''7'' (zip (map (split0 (active_regex True)) [''X_S1_R1_001.fastq.gz''])
         [''X_S1_R1_001.fastq.gz'']) header
       = (Inr (), manifest_text (map (record_of True ''7'') [''X_S1_R1_001.fastq.gz'']))"
    by (rule t[THEN conjunct2, THEN conjunct2, THEN conjunct1, THEN mp, OF p])
  show ?thesis
    unfolding recs_def[symmetric]
    by (intro conjI) (rule h[folded list_all_iff] a p[folded list_all_iff] b)+
qed

end
